theory Spec2Isabelle
  imports Main
begin

section \<open>Time values\<close>

text \<open>
  A JavaScript \<open>Date\<close> and a luxon \<open>DateTime\<close> both carry a time value: the
  number of milliseconds since 1970-01-01T00:00:00Z. Comparing two of them
  (\<open><\<close>, \<open><=\<close>) compares the time values. A time zone is modelled by
  its offset from UTC in minutes, fixed over the period looked at (a change
  of offset inside the period, such as a daylight-saving switch, is outside
  the model).
\<close>

type_synonym instant = int
type_synonym zone = int

definition msPerMinute :: int where
  "msPerMinute = 60000"

definition msPerHour :: int where
  "msPerHour = 3600000"

definition msPerDay :: int where
  "msPerDay = 86400000"

definition LocalTime :: "zone \<Rightarrow> instant \<Rightarrow> int" where
  "LocalTime z t = t + z * msPerMinute"

definition UTC :: "zone \<Rightarrow> int \<Rightarrow> instant" where
  "UTC z l = l - z * msPerMinute"

definition Day :: "int \<Rightarrow> int" where
  "Day t = t div msPerDay"

definition TimeWithinDay :: "int \<Rightarrow> int" where
  "TimeWithinDay t = t mod msPerDay"

text \<open>luxon \<open>dt.plus({ days: n })\<close> and \<open>dt.plus({ minutes: n })\<close>.\<close>

definition plus_days :: "instant \<Rightarrow> int \<Rightarrow> instant" where
  "plus_days dt n = dt + n * msPerDay"

definition plus_minutes :: "instant \<Rightarrow> int \<Rightarrow> instant" where
  "plus_minutes dt n = dt + n * msPerMinute"

text \<open>
  luxon \<open>dt.set({ hour: h, minute: 0, second: 0, millisecond: 0 })\<close> in zone
  \<open>z\<close>: the local calendar day is kept, the local time of day is replaced.
\<close>

definition set_hour :: "zone \<Rightarrow> instant \<Rightarrow> int \<Rightarrow> instant" where
  "set_hour z dt h = UTC z (Day (LocalTime z dt) * msPerDay + h * msPerHour)"

section \<open>The calendar of ECMAScript\<close>

text \<open>
  \<open>DaysInYear\<close>, \<open>DayFromYear\<close>, \<open>YearFromTime\<close>, \<open>MonthFromTime\<close>,
  \<open>DateFromTime\<close>, \<open>MakeDay\<close> and \<open>MakeDate\<close> as the language standard
  defines them for \<open>Date\<close>. \<open>YearFromTime\<close> is the largest year whose
  first day is not after the day looked at; it is computed by a search
  upwards from a year that is early enough.
\<close>

definition DaysInYear :: "int \<Rightarrow> int" where
  "DaysInYear y =
     (if y mod 4 \<noteq> 0 then 365 else if y mod 100 \<noteq> 0 then 366
      else if y mod 400 \<noteq> 0 then 365 else 366)"

definition DayFromYear :: "int \<Rightarrow> int" where
  "DayFromYear y =
     365 * (y - 1970) + (y - 1969) div 4 - (y - 1901) div 100 + (y - 1601) div 400"

lemma div_step:
  fixes a k :: int
  assumes "0 < k"
  shows "(a + 1) div k = a div k + (if (a + 1) mod k = 0 then 1 else 0)"
proof -
  have a: "k * (a div k) + a mod k = a" by (rule mult_div_mod_eq)
  have r: "0 \<le> a mod k" "a mod k < k" using assms by simp_all
  have d: "k * (a div k + 1) = k * (a div k) + k" by (simp add: algebra_simps)
  show ?thesis
  proof (cases "a mod k + 1 = k")
    case True
    have e: "a + 1 = k * (a div k + 1) + 0"
      using a True d by linarith
    have "(a + 1) div k = a div k + 1"
      by (rule int_div_pos_eq[OF e]) (use assms in simp_all)
    moreover have "(a + 1) mod k = 0"
      by (rule int_mod_pos_eq[OF e]) (use assms in simp_all)
    ultimately show ?thesis by simp
  next
    case False
    have e: "a + 1 = k * (a div k) + (a mod k + 1)"
      using a by linarith
    have lt: "a mod k + 1 < k" using r False by linarith
    have "(a + 1) div k = a div k"
      by (rule int_div_pos_eq[OF e]) (use r lt in simp_all)
    moreover have "(a + 1) mod k = a mod k + 1"
      by (rule int_mod_pos_eq[OF e]) (use r lt in simp_all)
    ultimately show ?thesis using r by simp
  qed
qed

lemma mod_shift:
  fixes y k c :: int
  shows "(y - k * c) mod k = y mod k"
proof -
  have "(y - k * c) mod k = (y + k * (- c)) mod k" by simp
  also have "\<dots> = y mod k" by (rule mod_mult_self2)
  finally show ?thesis .
qed

lemma div_step_shift:
  fixes y k c :: int
  assumes "0 < k"
  shows "(y - k * c) div k = (y - k * c - 1) div k + (if y mod k = 0 then 1 else 0)"
proof -
  have "(y - k * c - 1 + 1) div k =
        (y - k * c - 1) div k + (if (y - k * c - 1 + 1) mod k = 0 then 1 else 0)"
    using assms by (rule div_step)
  moreover have "y - k * c - 1 + 1 = y - k * c" by simp
  ultimately show ?thesis by (simp only: mod_shift)
qed

lemma DayFromYear_Suc: "DayFromYear (y + 1) = DayFromYear y + DaysInYear y"
proof -
  have s4: "(y - 1968) div 4 = (y - 1969) div 4 + (if y mod 4 = 0 then 1 else 0)"
    using div_step_shift[of 4 y 492] by simp
  have s100: "(y - 1900) div 100 = (y - 1901) div 100 + (if y mod 100 = 0 then 1 else 0)"
    using div_step_shift[of 100 y 19] by simp
  have s400: "(y - 1600) div 400 = (y - 1601) div 400 + (if y mod 400 = 0 then 1 else 0)"
    using div_step_shift[of 400 y 4] by simp
  have d100: "y mod 100 = 0 \<Longrightarrow> y mod 4 = 0"
    using mod_mod_cancel[of 4 100 y] by simp
  have d400: "y mod 400 = 0 \<Longrightarrow> y mod 100 = 0"
    using mod_mod_cancel[of 100 400 y] by simp
  define A where "A = (y - 1969) div 4"
  define B where "B = (y - 1901) div 100"
  define C where "C = (y - 1601) div 400"
  define i4 :: int where "i4 = (if y mod 4 = 0 then 1 else 0)"
  define i100 :: int where "i100 = (if y mod 100 = 0 then 1 else 0)"
  define i400 :: int where "i400 = (if y mod 400 = 0 then 1 else 0)"
  have n: "DayFromYear (y + 1) = 365 * (y - 1969) + (A + i4) - (B + i100) + (C + i400)"
    by (simp add: DayFromYear_def s4 s100 s400 A_def B_def C_def i4_def i100_def i400_def)
  have o: "DayFromYear y = 365 * (y - 1970) + A - B + C"
    by (simp only: DayFromYear_def A_def B_def C_def)
  have "i4 - i100 + i400 + 365 = DaysInYear y"
    using d100 d400 by (simp add: DaysInYear_def i4_def i100_def i400_def)
  then show ?thesis unfolding n o by (simp add: algebra_simps)
qed

lemma DaysInYear_range: "365 \<le> DaysInYear y \<and> DaysInYear y \<le> 366"
  by (simp add: DaysInYear_def)

lemma DayFromYear_step: "DayFromYear y + 365 \<le> DayFromYear (y + 1)"
  using DaysInYear_range[of y] by (simp add: DayFromYear_Suc)

function year_search :: "int \<Rightarrow> int \<Rightarrow> int" where
  "year_search y d = (if DayFromYear (y + 1) \<le> d then year_search (y + 1) d else y)"
  by pat_completeness auto
termination
proof (relation "measure (\<lambda>(y, d). nat (d + 1 - DayFromYear (y + 1)))")
  show "wf (measure (\<lambda>(y, d). nat (d + 1 - DayFromYear (y + 1))))" by simp
next
  fix y d :: int
  assume "DayFromYear (y + 1) \<le> d"
  moreover have "DayFromYear (y + 1) + 365 \<le> DayFromYear (y + 1 + 1)"
    by (rule DayFromYear_step)
  ultimately show "((y + 1, d), (y, d)) \<in> measure (\<lambda>(y, d). nat (d + 1 - DayFromYear (y + 1)))"
    by simp
qed

definition YearFromDay :: "int \<Rightarrow> int" where
  "YearFromDay d = year_search (1970 + (if d < 0 then d div 365 else d div 366)) d"

declare year_search.simps [simp del]

definition YearFromTime :: "int \<Rightarrow> int" where
  "YearFromTime t = YearFromDay (Day t)"

definition InLeapYear :: "int \<Rightarrow> int" where
  "InLeapYear t = (if DaysInYear (YearFromTime t) = 366 then 1 else 0)"

definition DayWithinYear :: "int \<Rightarrow> int" where
  "DayWithinYear t = Day t - DayFromYear (YearFromTime t)"

text \<open>
  The day of the year on which month \<open>m\<close> (0 = January) starts, in a year with
  leap-day count \<open>l\<close> (0 or 1).
\<close>

definition month_start :: "int \<Rightarrow> int \<Rightarrow> int" where
  "month_start l m =
     (if m \<le> 0 then 0 else if m = 1 then 31 else if m = 2 then 59 + l
      else if m = 3 then 90 + l else if m = 4 then 120 + l else if m = 5 then 151 + l
      else if m = 6 then 181 + l else if m = 7 then 212 + l else if m = 8 then 243 + l
      else if m = 9 then 273 + l else if m = 10 then 304 + l else 334 + l)"

definition MonthFromTime :: "int \<Rightarrow> int" where
  "MonthFromTime t =
     (let d = DayWithinYear t; l = InLeapYear t in
      if d < 31 then 0 else if d < 59 + l then 1 else if d < 90 + l then 2
      else if d < 120 + l then 3 else if d < 151 + l then 4 else if d < 181 + l then 5
      else if d < 212 + l then 6 else if d < 243 + l then 7 else if d < 273 + l then 8
      else if d < 304 + l then 9 else if d < 334 + l then 10 else 11)"

definition DateFromTime :: "int \<Rightarrow> int" where
  "DateFromTime t = DayWithinYear t - month_start (InLeapYear t) (MonthFromTime t) + 1"

definition MakeDay :: "int \<Rightarrow> int \<Rightarrow> int \<Rightarrow> int" where
  "MakeDay year month date =
     (let ym = year + month div 12; mn = month mod 12 in
      DayFromYear ym + month_start (if DaysInYear ym = 366 then 1 else 0) mn + date - 1)"

definition MakeTime :: "int \<Rightarrow> int \<Rightarrow> int \<Rightarrow> int \<Rightarrow> int" where
  "MakeTime hour minute sec ms = hour * msPerHour + minute * msPerMinute + sec * 1000 + ms"

definition MakeDate :: "int \<Rightarrow> int \<Rightarrow> int" where
  "MakeDate day time = day * msPerDay + time"

text \<open>
  \<open>Date.prototype.getFullYear\<close> and \<open>setFullYear\<close>, in the local time zone
  \<open>z\<close> of the process: the year is replaced, the local month, day of month
  and time of day are kept, and a day of month the new year does not have
  (February 29) runs over into March.
\<close>

definition getFullYear :: "zone \<Rightarrow> instant \<Rightarrow> int" where
  "getFullYear z t = YearFromTime (LocalTime z t)"

definition setFullYear :: "zone \<Rightarrow> instant \<Rightarrow> int \<Rightarrow> instant" where
  "setFullYear z t year =
     (let l = LocalTime z t;
          newDate = MakeDay year (MonthFromTime l) (DateFromTime l)
      in UTC z (MakeDate newDate (TimeWithinDay l)))"

text \<open>
  The weekday (0 = Sunday) and the minute of the day that
  \<open>Intl.DateTimeFormat\<close> reports for an instant in zone \<open>z\<close>, with the hour
  running from 0 to 23.
\<close>

definition WeekDay :: "int \<Rightarrow> int" where
  "WeekDay t = (Day t + 4) mod 7"

definition HourFromTime :: "int \<Rightarrow> int" where
  "HourFromTime t = (t div msPerHour) mod 24"

definition MinFromTime :: "int \<Rightarrow> int" where
  "MinFromTime t = (t div msPerMinute) mod 60"

section \<open>Strings\<close>

text \<open>\<open>String.prototype.toLowerCase\<close> on the ASCII letters, and \<open>includes\<close>.\<close>

definition lower_char :: "char \<Rightarrow> char" where
  "lower_char c =
     (case map_of (zip ''ABCDEFGHIJKLMNOPQRSTUVWXYZ'' ''abcdefghijklmnopqrstuvwxyz'') c of
        Some l \<Rightarrow> l
      | None \<Rightarrow> c)"

definition toLowerCase :: "string \<Rightarrow> string" where
  "toLowerCase s = map lower_char s"

fun starts_with :: "string \<Rightarrow> string \<Rightarrow> bool" where
  "starts_with s [] = True"
| "starts_with [] (p # ps) = False"
| "starts_with (c # cs) (p # ps) = (c = p \<and> starts_with cs ps)"

fun str_includes :: "string \<Rightarrow> string \<Rightarrow> bool" where
  "str_includes [] p = (p = [])"
| "str_includes (c # cs) p = (starts_with (c # cs) p \<or> str_includes cs p)"

text \<open>
  \<open>s.split(sep)\<close> for a separator of one character: the pieces between the
  separators, empty pieces included, so that the empty string gives one
  empty piece.
\<close>

fun split_on :: "char \<Rightarrow> string \<Rightarrow> string list" where
  "split_on sep [] = [[]]"
| "split_on sep (c # cs) =
     (if c = sep then [] # split_on sep cs
      else (case split_on sep cs of [] \<Rightarrow> [[c]] | p # ps \<Rightarrow> (c # p) # ps))"

text \<open>An array element by index; \<open>None\<close> is \<open>undefined\<close>.\<close>

fun nth_opt :: "'a list \<Rightarrow> nat \<Rightarrow> 'a option" where
  "nth_opt [] n = None"
| "nth_opt (x # xs) 0 = Some x"
| "nth_opt (x # xs) (Suc n) = nth_opt xs n"

definition is_space :: "char \<Rightarrow> bool" where
  "is_space c = (let n = (of_char c :: nat) in n = 32 \<or> (9 \<le> n \<and> n \<le> 13))"

definition trim :: "string \<Rightarrow> string" where
  "trim s = rev (dropWhile is_space (rev (dropWhile is_space s)))"

definition is_digit :: "char \<Rightarrow> bool" where
  "is_digit c = (let n = (of_char c :: nat) in 48 \<le> n \<and> n \<le> 57)"

definition digit_val :: "char \<Rightarrow> int" where
  "digit_val c = int (of_char c) - 48"

definition decimal :: "string \<Rightarrow> int" where
  "decimal s = foldl (\<lambda>a c. 10 * a + digit_val c) 0 s"

text \<open>
  \<open>Number(s)\<close> on the strings the configuration and the requests are made
  of: white space around the numeral is dropped, the empty string is 0, a
  run of decimal digits with an optional sign is its value. \<open>None\<close> stands
  for a result that \<open>Number.isFinite\<close> rejects. JavaScript also reads
  numerals with a fraction, an exponent or a radix prefix (\<open>1.5\<close>, \<open>1e1\<close>,
  \<open>0x3\<close>), which read as \<open>None\<close> here: on a string that holds one this
  definition is not JavaScript's \<open>Number\<close>. \<open>plain_numerals\<close> below names
  the strings on which it is.
\<close>

definition Number :: "string \<Rightarrow> int option" where
  "Number s =
     (case trim s of
        [] \<Rightarrow> Some 0
      | c # ds \<Rightarrow>
          if (c = CHR ''-'' \<or> c = CHR ''+'') \<and> ds \<noteq> [] \<and> list_all is_digit ds
          then Some ((if c = CHR ''-'' then - 1 else 1) * decimal ds)
          else if list_all is_digit (c # ds) then Some (decimal (c # ds))
          else None)"

text \<open>
  The strings on which the functions above are JavaScript's: no character
  outside ASCII (so that the white space of \<open>trim\<close> and \<open>Number\<close> is the
  white space above and \<open>toLowerCase\<close> changes the letters \<open>A\<close> to \<open>Z\<close>
  only), none of the characters that a numeral with a fraction, an exponent
  or a radix prefix is written with, and at most 14 characters (so that
  every numeral read, and 60 times it, is an integer that a JavaScript
  number holds exactly). The statements below about the business hours
  of every configuration and about the requests handed to the calendar
  unchecked take this as a hypothesis.
\<close>

definition plain_numerals :: "string \<Rightarrow> bool" where
  "plain_numerals s =
     (length s \<le> 14 \<and>
      list_all (\<lambda>c. (of_char c :: nat) < 128 \<and> c \<notin> set ''.eExXoObB'') s)"

section \<open>services/date-parser.js\<close>

definition pickDefaultHourByHint :: "string \<Rightarrow> int option" where
  "pickDefaultHourByHint text =
     (let t = toLowerCase text in
      if str_includes t ''morning'' then Some 9
      else if str_includes t ''afternoon'' then Some 14
      else if str_includes t ''evening'' then Some 18
      else None)"

definition ensureFuture :: "instant \<Rightarrow> instant \<Rightarrow> bool \<Rightarrow> instant" where
  "ensureFuture dt now weekdayBias =
     (if dt \<le> now then
        (let future = (if weekdayBias then plus_days dt 7 else plus_days dt 1) in
         if future \<le> now then plus_minutes now 5 else future)
      else dt)"

text \<open>
  What the code reads from the first result of \<open>chrono.casual.parse\<close>:
  \<open>r.start.date()\<close>, \<open>r.start.isCertain('hour')\<close> and
  \<open>r.start.get('weekday')\<close>. The last is \<open>null\<close> when the phrase names no
  weekday and the weekday's number otherwise; chrono numbers the weekdays
  from Sunday = 0 to Saturday = 6.
\<close>

record chrono_result =
  start_date :: instant
  hourCertain :: bool
  weekday :: "int option"

text \<open>JavaScript \<open>!!v\<close> for a value that is \<open>null\<close> or a number.\<close>

definition truthy :: "int option \<Rightarrow> bool" where
  "truthy v = (case v of None \<Rightarrow> False | Some n \<Rightarrow> n \<noteq> 0)"

text \<open>Lines 27 to 34: the instant handed to the future-safety pass.\<close>

definition applyHint :: "zone \<Rightarrow> string \<Rightarrow> chrono_result \<Rightarrow> instant" where
  "applyHint z text r =
     (let dt = start_date r in
      if \<not> hourCertain r then
        (case pickDefaultHourByHint text of
           Some defaultHour \<Rightarrow> set_hour z dt defaultHour
         | None \<Rightarrow> dt)
      else dt)"

text \<open>
  \<open>parseRelativeDateToISO({ text, timezone, now })\<close>. The parser of chrono is a
  parameter (phrase and reference instant to the list of results); \<open>now\<close> is
  the caller's reference when given and the clock otherwise. The result is
  the instant whose ISO text the function returns, \<open>None\<close> for \<open>null\<close>.
\<close>

definition parseRelativeDateToISO ::
    "(string \<Rightarrow> instant \<Rightarrow> chrono_result list) \<Rightarrow> instant \<Rightarrow> string \<Rightarrow> zone \<Rightarrow>
     instant option \<Rightarrow> instant option" where
  "parseRelativeDateToISO chrono clock text z now =
     (let ref = (case now of Some n \<Rightarrow> n | None \<Rightarrow> clock) in
      case chrono text ref of
        [] \<Rightarrow> None
      | r # _ \<Rightarrow>
          (let dt = applyHint z text r;
               weekdayBias = truthy (weekday r)
           in Some (ensureFuture dt ref weekdayBias)))"

section \<open>services/datetime.js\<close>

text \<open>
  \<open>getCurrentDateTimeISO\<close> prints the clock's local date and time down to
  the second, and \<open>ensureFutureIso\<close> reads that text back as a local time:
  its \<open>now\<close> is the clock cut down to the whole second.
\<close>

definition now_of_clock :: "instant \<Rightarrow> instant" where
  "now_of_clock clock = clock - clock mod 1000"

text \<open>
  The result of \<open>ensureFutureIso\<close>: the input handed back as it came, or the
  ISO text of an instant.
\<close>

datatype iso_result = Unchanged string | Iso instant

text \<open>
  \<open>ensureFutureIso(inputIso)\<close>. \<open>Date_parse\<close> is the reading of a string by
  \<open>new Date(s)\<close> (\<open>None\<close> for an invalid date), \<open>z\<close> the local time zone of
  the process and \<open>clock\<close> the instant of the call.
\<close>

definition ensureFutureIso ::
    "(string \<Rightarrow> instant option) \<Rightarrow> zone \<Rightarrow> instant \<Rightarrow> string \<Rightarrow> iso_result" where
  "ensureFutureIso Date_parse z clock inputIso =
     (if inputIso = [] then Unchanged inputIso
      else
        (let now = now_of_clock clock in
         case Date_parse inputIso of
           None \<Rightarrow> Unchanged inputIso
         | Some parsed \<Rightarrow>
             (let currentYear = getFullYear z now;
                  candidate = (if getFullYear z parsed < currentYear
                               then setFullYear z parsed currentYear else parsed);
                  candidate = (if candidate < now
                               then setFullYear z candidate (getFullYear z candidate + 1)
                               else candidate)
              in Iso candidate)))"

text \<open>
  An instance of the reading of a string by \<open>new Date(s)\<close>, for the texts
  that \<open>toISOString\<close> prints (\<open>YYYY-MM-DDTHH:mm:ss.sssZ\<close>); every other
  text is outside the instance and reads as an invalid date in it.
\<close>

definition field :: "string \<Rightarrow> nat \<Rightarrow> nat \<Rightarrow> string" where
  "field s i n = take n (drop i s)"

definition Date_parse_iso :: "string \<Rightarrow> instant option" where
  "Date_parse_iso s =
     (if length s = 24 \<and> list_all is_digit (field s 0 4) \<and> field s 4 1 = ''-'' \<and>
         list_all is_digit (field s 5 2) \<and> field s 7 1 = ''-'' \<and>
         list_all is_digit (field s 8 2) \<and> field s 10 1 = ''T'' \<and>
         list_all is_digit (field s 11 2) \<and> field s 13 1 = '':'' \<and>
         list_all is_digit (field s 14 2) \<and> field s 16 1 = '':'' \<and>
         list_all is_digit (field s 17 2) \<and> field s 19 1 = ''.'' \<and>
         list_all is_digit (field s 20 3) \<and> field s 23 1 = ''Z''
      then
        (let y = decimal (field s 0 4); m = decimal (field s 5 2); d = decimal (field s 8 2);
             h = decimal (field s 11 2); mi = decimal (field s 14 2);
             sec = decimal (field s 17 2); ms = decimal (field s 20 3)
         in if 1 \<le> m \<and> m \<le> 12 \<and> 1 \<le> d \<and>
               d \<le> (if m = 2 then (if DaysInYear y = 366 then 29 else 28)
                      else if m = 4 \<or> m = 6 \<or> m = 9 \<or> m = 11 then 30 else 31) \<and>
               h \<le> 23 \<and> mi \<le> 59 \<and> sec \<le> 59
            then Some (MakeDate (MakeDay y (m - 1) d) (MakeTime h mi sec ms))
            else None)
      else None)"

section \<open>The business hours of the voice server\<close>

definition all_days :: "int list" where
  "all_days = [0, 1, 2, 3, 4, 5, 6]"

text \<open>One comma-separated part of the days specification, trimmed.\<close>

definition days_of_part :: "string \<Rightarrow> int list" where
  "days_of_part p =
     (if p = [] then []
      else if str_includes p ''-'' then
        (let ns = map Number (split_on (CHR ''-'') p) in
         case (nth_opt ns 0, nth_opt ns 1) of
           (Some (Some a), Some (Some b)) \<Rightarrow> [min a b..max a b]
         | _ \<Rightarrow> [])
      else (case Number p of Some n \<Rightarrow> [n] | None \<Rightarrow> []))"

definition parseBusinessDays :: "string \<Rightarrow> int list" where
  "parseBusinessDays spec =
     (if spec = [] then all_days
      else
        (let days = concat (map (\<lambda>part. days_of_part (trim part)) (split_on (CHR '','') spec))
         in if days = [] then all_days else days))"

definition getPartsForDateInTimezone :: "instant \<Rightarrow> zone \<Rightarrow> int \<times> int" where
  "getPartsForDateInTimezone date tz =
     (let l = LocalTime tz date in (WeekDay l, HourFromTime l * 60 + MinFromTime l))"

text \<open>
  \<open>(str || dflt).split(':').map(Number)\<close> read as hour and minute, each
  replaced by its default when it is not a finite number.
\<close>

definition hour_minute :: "string option \<Rightarrow> string \<Rightarrow> int \<Rightarrow> int \<Rightarrow> int" where
  "hour_minute str dflt dh dm =
     (let s = (case str of None \<Rightarrow> dflt | Some t \<Rightarrow> if t = [] then dflt else t);
          ns = map Number (split_on (CHR '':'') s);
          h = (case nth_opt ns 0 of Some (Some n) \<Rightarrow> n | _ \<Rightarrow> dh);
          m = (case nth_opt ns 1 of Some (Some n) \<Rightarrow> n | _ \<Rightarrow> dm)
      in h * 60 + m)"

definition openMin :: "string \<Rightarrow> int" where
  "openMin hoursRange = hour_minute (nth_opt (split_on (CHR ''-'') hoursRange) 0) ''00:00'' 0 0"

definition closeMin :: "string \<Rightarrow> int" where
  "closeMin hoursRange = hour_minute (nth_opt (split_on (CHR ''-'') hoursRange) 1) ''23:59'' 23 59"

text \<open>
  \<open>isWithinBusinessHoursAt(isoString, { timezone, hoursRange, daysSpec })\<close>.
  The first argument is what \<open>new Date(isoString)\<close> reads (\<open>None\<close> for an
  invalid date). With a time zone that exists nothing in the body throws,
  so the \<open>catch\<close> branch is not reached.
\<close>

definition isWithinBusinessHoursAt ::
    "instant option \<Rightarrow> zone \<Rightarrow> string \<Rightarrow> string \<Rightarrow> bool" where
  "isWithinBusinessHoursAt date_read tz hoursRange daysSpec =
     (case date_read of
        None \<Rightarrow> False
      | Some d \<Rightarrow>
          (let days = parseBusinessDays daysSpec;
               (day, minutes) = getPartsForDateInTimezone d tz
           in if day \<notin> set days then False
              else openMin hoursRange \<le> minutes \<and> minutes \<le> closeMin hoursRange))"

text \<open>The en dash of the source's texts, in UTF-8.\<close>

definition en_dash :: string where
  "en_dash = [CHR 0xE2, CHR 0x80, CHR 0x93]"

definition businessDaysHuman :: "string \<Rightarrow> string" where
  "businessDaysHuman spec =
     (let s = trim spec in
      if s = ''1-5'' then ''Mon'' @ en_dash @ ''Fri''
      else if s = ''0-6'' then ''Sun'' @ en_dash @ ''Sat''
      else if s = [] then ''Mon'' @ en_dash @ ''Fri'' else s)"

section \<open>The booking endpoint: POST /tools/hume/book-appointment\<close>

text \<open>
  The JSON body of the request; \<open>None\<close> is a field that is absent (or
  falsy). \<open>attendees\<close> is given when the field is an array.
\<close>

record booking_body =
  calendarId :: "string option"
  date :: "string option"
  startTime :: "string option"
  endTime :: "string option"
  timezone :: "string option"
  summary :: "string option"
  description :: "string option"
  attendees :: "string list option"

text \<open>\<open>String(v || dflt)\<close> for an optional string field.\<close>

definition or_default :: "string option \<Rightarrow> string \<Rightarrow> string" where
  "or_default v dflt = (case v of None \<Rightarrow> dflt | Some s \<Rightarrow> if s = [] then dflt else s)"

text \<open>
  What the endpoint asks of luxon beyond arithmetic: \<open>DateTime.fromFormat\<close>
  read as a date (year, month, day) or as a time (hour, minute), and
  \<open>DateTime.fromISO\<close> read as a date; \<open>None\<close> is an invalid result. The
  last field gives a zone name its offset.
\<close>

record luxon =
  fromFormat_date :: "string \<Rightarrow> string \<Rightarrow> (int \<times> int \<times> int) option"
  fromFormat_time :: "string \<Rightarrow> string \<Rightarrow> (int \<times> int) option"
  fromISO_date :: "string \<Rightarrow> (int \<times> int \<times> int) option"
  zone_offset :: "string \<Rightarrow> zone"

definition daysInMonth :: "int \<Rightarrow> int \<Rightarrow> int" where
  "daysInMonth year month =
     (if month = 2 then (if DaysInYear year = 366 then 29 else 28)
      else if month = 4 \<or> month = 6 \<or> month = 9 \<or> month = 11 then 30 else 31)"

text \<open>The test of \<open>/^\\d{4}-\\d{2}-\\d{2}$/\<close>.\<close>

definition is_ymd :: "string \<Rightarrow> bool" where
  "is_ymd s =
     (length s = 10 \<and> list_all is_digit (take 4 s) \<and> s ! 4 = CHR ''-'' \<and>
      list_all is_digit (take 2 (drop 5 s)) \<and> s ! 7 = CHR ''-'' \<and>
      list_all is_digit (drop 8 s))"

definition parseDate :: "luxon \<Rightarrow> int \<Rightarrow> string \<Rightarrow> (int \<times> int \<times> int) option" where
  "parseDate lx nowYear dStr =
     (if is_ymd dStr then
        Some (decimal (take 4 dStr), decimal (take 2 (drop 5 dStr)), decimal (drop 8 dStr))
      else
        (case fromFormat_date lx dStr ''M/d/yyyy'' of
           Some p \<Rightarrow> Some p
         | None \<Rightarrow>
             (case fromFormat_date lx dStr ''M/d'' of
                Some (y, m, d) \<Rightarrow> Some (nowYear, m, min (daysInMonth nowYear m) d)
              | None \<Rightarrow> fromISO_date lx dStr)))"

fun first_format :: "luxon \<Rightarrow> string \<Rightarrow> string list \<Rightarrow> (int \<times> int) option" where
  "first_format lx t [] = None"
| "first_format lx t (fmt # fmts) =
     (case fromFormat_time lx t fmt of Some p \<Rightarrow> Some p | None \<Rightarrow> first_format lx t fmts)"

definition parseTime :: "luxon \<Rightarrow> string \<Rightarrow> (int \<times> int) option" where
  "parseTime lx tStr =
     (case first_format lx (toLowerCase (trim tStr)) [''H:mm'', ''h:mm a'', ''h a'', ''H''] of
        Some p \<Rightarrow> Some p
      | None \<Rightarrow>
          (let ns = map Number (split_on (CHR '':'') tStr) in
           case nth_opt ns 0 of
             Some (Some hh) \<Rightarrow>
               Some (hh, (case nth_opt ns 1 of Some (Some mm) \<Rightarrow> mm | _ \<Rightarrow> 0))
           | _ \<Rightarrow> None))"

text \<open>
  \<open>DateTime.fromObject({ year, month, day, hour, minute, second: 0,
  millisecond: 0 }, { zone })\<close>: the instant, or \<open>None\<close> for an invalid
  \<open>DateTime\<close> (a unit out of its range).
\<close>

definition fromObject :: "zone \<Rightarrow> int \<times> int \<times> int \<Rightarrow> int \<times> int \<Rightarrow> instant option" where
  "fromObject z dParts tParts =
     (case (dParts, tParts) of
        ((year, month, day), (hour, minute)) \<Rightarrow>
          if 1 \<le> month \<and> month \<le> 12 \<and> 1 \<le> day \<and> day \<le> daysInMonth year month \<and>
             ((0 \<le> hour \<and> hour \<le> 23) \<or> (hour = 24 \<and> minute = 0)) \<and>
             0 \<le> minute \<and> minute \<le> 59
          then Some (UTC z (MakeDate (MakeDay year (month - 1) day) (MakeTime hour minute 0 0)))
          else None)"

text \<open>
  \<open>if (endDt <= startDt) endDt = endDt.plus({ days: 1 })\<close>; a comparison
  with an invalid \<open>DateTime\<close> is false.
\<close>

definition roll_end :: "instant option \<Rightarrow> instant option \<Rightarrow> instant option" where
  "roll_end startDt endDt =
     (case (startDt, endDt) of
        (Some s, Some e) \<Rightarrow> if e \<le> s then Some (plus_days e 1) else Some e
      | _ \<Rightarrow> endDt)"

text \<open>
  The request body sent to the calendar; \<open>start_dateTime\<close> and
  \<open>end_dateTime\<close> are the instants whose ISO texts are sent (\<open>None\<close> is
  \<open>null\<close>).
\<close>

record event_request =
  ev_calendarId :: string
  ev_summary :: string
  ev_description :: string
  ev_start_dateTime :: "instant option"
  ev_end_dateTime :: "instant option"
  ev_timeZone :: string
  ev_attendees :: "string list option"

datatype 'e http_response =
    Bad_request string
  | Ok_event 'e
  | Server_error string

text \<open>
  The zone of the request and the parts read from its date, start time and
  end time; \<open>None\<close> when one of them cannot be read.
\<close>

definition booking_parts ::
    "luxon \<Rightarrow> string \<Rightarrow> instant \<Rightarrow> booking_body \<Rightarrow>
     (zone \<times> (int \<times> int \<times> int) \<times> (int \<times> int) \<times> (int \<times> int)) option" where
  "booking_parts lx businessTz clock body =
     (let tz = zone_offset lx (or_default (timezone body) businessTz);
          nowYear = YearFromTime (LocalTime tz clock)
      in case (parseDate lx nowYear (trim (or_default (date body) [])),
               parseTime lx (trim (or_default (startTime body) [])),
               parseTime lx (trim (or_default (endTime body) []))) of
           (Some dParts, Some sParts, Some eParts) \<Rightarrow> Some (tz, dParts, sParts, eParts)
         | _ \<Rightarrow> None)"

text \<open>
  The handler. \<open>events_insert\<close> is \<open>calendar.events.insert\<close> (\<open>Inl\<close> the
  message of the error it throws, \<open>Inr\<close> the event created). The result is
  the response and the list of requests made to the calendar. Between
  reading the parts and calling the calendar the handler makes no check of
  the start against the clock or against the business hours.
\<close>

definition book_appointment ::
    "luxon \<Rightarrow> string \<Rightarrow> string \<Rightarrow> instant \<Rightarrow> (event_request \<Rightarrow> string + 'e) \<Rightarrow>
     booking_body \<Rightarrow> 'e http_response \<times> event_request list" where
  "book_appointment lx businessTz businessName clock events_insert body =
     (if trim (or_default (date body) []) = [] \<or> trim (or_default (startTime body) []) = [] \<or>
         trim (or_default (endTime body) []) = []
      then (Bad_request ''date, startTime, endTime required'', [])
      else
        (case booking_parts lx businessTz clock body of
           None \<Rightarrow> (Bad_request ''Invalid date or time format'', [])
         | Some (tz, dParts, sParts, eParts) \<Rightarrow>
             (let startDt = fromObject tz dParts sParts;
                  endDt = roll_end startDt (fromObject tz dParts eParts);
                  req = \<lparr>ev_calendarId = trim (or_default (calendarId body) ''primary''),
                         ev_summary = or_default (summary body) (''Call with '' @ businessName),
                         ev_description = or_default (description body)
                                            ''Booked via Hume tool book_appointment'',
                         ev_start_dateTime = startDt, ev_end_dateTime = endDt,
                         ev_timeZone = or_default (timezone body) businessTz,
                         ev_attendees = (case attendees body of
                                           Some (a # as) \<Rightarrow> Some (a # as) | _ \<Rightarrow> None)\<rparr>
              in case events_insert req of
                   Inr event \<Rightarrow> (Ok_event event, [req])
                 | Inl message \<Rightarrow> (Server_error message, [req]))))"

text \<open>
  An instance of the library record for the requests of the examples
  below, whose dates are written \<open>YYYY-MM-DD\<close> and whose times are written
  with digits and a colon. Such a date is read by the handler itself and
  never handed to luxon; on such a time luxon's am/pm formats are invalid
  and its 24-hour formats \<open>H:mm\<close> and \<open>H\<close> read one or two digits for the
  hour and two for the minute (24:00 is read as 0:00). On other texts the
  instance is not luxon: its date readers report every text invalid, where
  \<open>fromISO\<close> reads for one \<open>20250105\<close>. The zone America/Chicago is at
  its standard offset.
\<close>

definition hour_24 :: "string \<Rightarrow> string \<Rightarrow> (int \<times> int) option" where
  "hour_24 h m =
     (if (length h = 1 \<or> length h = 2) \<and> list_all is_digit h \<and> length m = 2 \<and>
         list_all is_digit m \<and> decimal m \<le> 59 \<and>
         (decimal h \<le> 23 \<or> (decimal h = 24 \<and> decimal m = 0))
      then Some (if decimal h = 24 then 0 else decimal h, decimal m) else None)"

definition luxon_24h :: luxon where
  "luxon_24h =
     \<lparr>fromFormat_date = (\<lambda>t fmt. None),
      fromFormat_time = (\<lambda>t fmt.
        if fmt = ''H:mm'' then
          (case split_on (CHR '':'') t of [h, m] \<Rightarrow> hour_24 h m | _ \<Rightarrow> None)
        else if fmt = ''H'' then hour_24 t ''00'' else None),
      fromISO_date = (\<lambda>t. None),
      zone_offset = (\<lambda>n. if n = ''America/Chicago'' then - 360 else 0)\<rparr>"

section \<open>The legacy webhook: POST /voice/schedule-time\<close>

text \<open>
  What \<open>inferIntentFromText\<close> returns, as far as the handler reads it.
\<close>

record intent =
  intent_reply :: string
  datetimeISO :: "string option"

text \<open>
  The names the handler uses and leaves to its module to bind. Evaluating a
  name that the module has not bound throws a \<open>ReferenceError\<close>. For
  \<open>getRelevantContext\<close> and \<open>inferIntentFromText\<close> the field is \<open>None\<close> when
  the name is not bound and otherwise the function it is bound to (whose
  result is \<open>None\<close> when the call throws); for the three functions that
  this theory embeds the field says whether the name is bound to them.
\<close>

record voice_scope =
  getRelevantContext :: "(string \<Rightarrow> string option) option"
  inferIntentFromText :: "(string \<Rightarrow> string \<Rightarrow> intent option) option"
  binds_parseRelativeDateToISO :: bool
  binds_ensureFutureIso :: bool
  binds_getCurrentDateTimeISO :: bool

text \<open>
  The scope of the server file. Its \<open>require\<close> lines (8 to 16) bind
  \<open>createEvent\<close> and none of the five names, and the file declares no
  function of these names.
\<close>

definition server_scope :: voice_scope where
  "server_scope =
     \<lparr>getRelevantContext = None, inferIntentFromText = None,
      binds_parseRelativeDateToISO = False, binds_ensureFutureIso = False,
      binds_getCurrentDateTimeISO = False\<rparr>"

text \<open>
  What else the handler works with: chrono, luxon's \<open>toISO\<close>,
  \<open>new Date(s)\<close>, the calendar client \<open>createEvent\<close> (\<open>None\<close> when it
  throws), the clock, the zone of the process and the configuration of the
  business. The calls that only record the turn (\<open>insertCallerMessage\<close>,
  \<open>insertCallEvent\<close>) sit in \<open>try\<close> blocks of their own whose \<open>catch\<close>
  goes on, bound or not, so they do not appear.
\<close>

record 'e voice_env =
  chrono_parse :: "string \<Rightarrow> instant \<Rightarrow> chrono_result list"
  toISO :: "instant \<Rightarrow> string"
  new_Date :: "string \<Rightarrow> instant option"
  createEvent :: "iso_result \<Rightarrow> 'e option"
  env_clock :: instant
  env_localZone :: zone
  env_businessTz :: zone
  env_businessHoursRange :: string
  env_businessDaysSpec :: string

text \<open>
  The replies of the handler. \<open>Unhandled_rejection\<close> is an error thrown
  outside every \<open>try\<close> block: the handler sends no reply of its own.
\<close>

datatype 'e twiml =
    Redirect_answer
  | Gather string
  | Confirmed 'e
  | Say string
  | Unhandled_rejection

text \<open>What \<open>new Date(s)\<close> reads from the result of \<open>ensureFutureIso\<close>.\<close>

definition date_of :: "(string \<Rightarrow> instant option) \<Rightarrow> iso_result \<Rightarrow> instant option" where
  "date_of parse r = (case r of Unchanged s \<Rightarrow> parse s | Iso t \<Rightarrow> Some t)"

definition outside_hours_message :: "string \<Rightarrow> string \<Rightarrow> string" where
  "outside_hours_message daysSpec hoursRange =
     ''That time is outside business hours. Please choose a time '' @
     businessDaysHuman daysSpec @ '' between '' @ hoursRange @ ''.''"

definition could_not_save :: string where
  "could_not_save = ''I could not save that appointment. Please try again later.''"

text \<open>
  Lines 231 to 258: the context and the intent, inside one \<open>try\<close> block;
  \<open>None\<close> is the \<open>catch\<close> branch.
\<close>

definition infer_intent :: "voice_scope \<Rightarrow> string \<Rightarrow> intent option" where
  "infer_intent sc speech =
     (case getRelevantContext sc of
        None \<Rightarrow> None
      | Some context_of \<Rightarrow>
          (case context_of speech of
             None \<Rightarrow> None
           | Some context \<Rightarrow>
               (case inferIntentFromText sc of
                  None \<Rightarrow> None
                | Some infer \<Rightarrow> infer speech context)))"

text \<open>
  Lines 260 to 269, outside every \<open>try\<close> block: the timestamp of the intent
  when it has one, and otherwise the caller's words read by
  \<open>parseRelativeDateToISO\<close>. \<open>Inl\<close> is the reply when there is no
  timestamp to go on with.
\<close>

definition schedule_datetime ::
    "voice_scope \<Rightarrow> 'e voice_env \<Rightarrow> string \<Rightarrow> intent \<Rightarrow> 'e twiml + string" where
  "schedule_datetime sc env speech i =
     (case datetimeISO i of
        Some (c # cs) \<Rightarrow> Inr (c # cs)
      | _ \<Rightarrow>
          if \<not> binds_parseRelativeDateToISO sc then Inl Unhandled_rejection
          else
            (case parseRelativeDateToISO (chrono_parse env) (env_clock env) speech
                    (env_businessTz env) None of
               None \<Rightarrow> Inl (Gather ''Please provide a specific day and time.'')
             | Some t \<Rightarrow> Inr (toISO env t)))"

text \<open>
  Lines 271 to 312, one \<open>try\<close> block whose \<open>catch\<close> says that the
  appointment could not be saved: the start is normalised, checked against
  the business hours, logged next to \<open>getCurrentDateTimeISO()\<close> and handed
  to \<open>createEvent\<close>. The second component lists the calls of \<open>createEvent\<close>.
\<close>

definition schedule_booking ::
    "voice_scope \<Rightarrow> 'e voice_env \<Rightarrow> string \<Rightarrow> 'e twiml \<times> iso_result list" where
  "schedule_booking sc env startISO =
     (if \<not> binds_ensureFutureIso sc then (Say could_not_save, [])
      else
        (let startISO2 = ensureFutureIso (new_Date env) (env_localZone env) (env_clock env)
                           startISO
         in if \<not> isWithinBusinessHoursAt (date_of (new_Date env) startISO2)
                   (env_businessTz env) (env_businessHoursRange env) (env_businessDaysSpec env)
            then (Gather (outside_hours_message (env_businessDaysSpec env)
                            (env_businessHoursRange env)), [])
            else if \<not> binds_getCurrentDateTimeISO sc then (Say could_not_save, [])
            else
              (case createEvent env startISO2 of
                 Some evt \<Rightarrow> (Confirmed evt, [startISO2])
               | None \<Rightarrow> (Say could_not_save, [startISO2]))))"

text \<open>
  The handler, from the session state of the call and the caller's speech
  to the reply and the list of \<open>createEvent\<close> calls made. Whether a text is
  spoken by Twilio or played from the speech endpoint does not change the
  flow and is not told apart. The state is what \<open>sessionByCallSid\<close> holds
  for the call (\<open>None\<close> when it holds nothing); in the server file no
  handler stores the state \<open>awaiting_datetime\<close>.
\<close>

definition schedule_time ::
    "voice_scope \<Rightarrow> 'e voice_env \<Rightarrow> string option \<Rightarrow> string \<Rightarrow> 'e twiml \<times> iso_result list" where
  "schedule_time sc env state speech =
     (if state \<noteq> Some ''awaiting_datetime'' then (Redirect_answer, [])
      else
        (case infer_intent sc speech of
           None \<Rightarrow> (Gather ''Sorry, what date and time?'', [])
         | Some i \<Rightarrow>
             (case schedule_datetime sc env speech i of
                Inl reply \<Rightarrow> (reply, [])
              | Inr startISO \<Rightarrow> schedule_booking sc env startISO)))"

section \<open>services/hume-tool-handler.js\<close>

text \<open>
  The fields of a tool-call message that the handler reads; \<open>None\<close> is a
  field that is absent.
\<close>

record tool_call_message =
  name :: "string option"
  tool_name :: "string option"
  toolCallId :: "string option"
  tool_call_id :: "string option"
  parameters :: "string option"
  args :: "string option"

text \<open>\<open>a || b\<close> on optional strings: \<open>undefined\<close> and the empty string are falsy.\<close>

definition or_js :: "string option \<Rightarrow> string option \<Rightarrow> string option" where
  "or_js a b = (if a = None \<or> a = Some [] then b else a)"

text \<open>
  The \<open>error\<close> text of a \<open>tool_error\<close>: "Tool not found", "Malformed
  parameters", "Bridge error" followed by the status, "Unhandled tool
  error".
\<close>

datatype error_text =
    Tool_not_found
  | Malformed_parameters
  | Bridge_error nat
  | Unhandled_tool_error

text \<open>
  The two replies: \<open>tool_response\<close> with \<open>toolCallId\<close> and \<open>content\<close>, and
  \<open>tool_error\<close> with \<open>toolCallId\<close>, \<open>error\<close>, \<open>content\<close> and
  \<open>fallback_content\<close>.
\<close>

datatype 'j tool_reply =
    Tool_response "string option" 'j
  | Tool_error "string option" error_text string "string option"

fun reply_id :: "'j tool_reply \<Rightarrow> string option" where
  "reply_id (Tool_response i c) = i"
| "reply_id (Tool_error i e c f) = i"

fun is_tool_response :: "'j tool_reply \<Rightarrow> bool" where
  "is_tool_response (Tool_response i c) = True"
| "is_tool_response (Tool_error i e c f) = False"

text \<open>
  What the request to the booking endpoint comes to: \<open>fetch\<close> rejects with
  a message, or a response arrives with its status, the result of
  \<open>resp.text()\<close> and, for \<open>resp.json()\<close>, the value of
  \<open>data?.event || data\<close>; \<open>Inl\<close> is the message of a read that fails.
\<close>

datatype 'j fetched =
    Rejected string
  | Responded nat "string + string" "string + 'j"

text \<open>
  The socket handed to the handler. Each send goes through \<open>?.\<close>, so a
  socket may lack a method; the field says whether it has it. A method that
  is there is handed the message and returns: the replies counted below are
  the messages handed to the socket's methods.
\<close>

record socket =
  sendToolResponseMessage :: bool
  sendToolErrorMessage :: bool

definition send_error :: "socket \<Rightarrow> 'j tool_reply \<Rightarrow> 'j tool_reply list" where
  "send_error sock r = (if sendToolErrorMessage sock then [r] else [])"

definition send_response :: "socket \<Rightarrow> 'j tool_reply \<Rightarrow> 'j tool_reply list" where
  "send_response sock r = (if sendToolResponseMessage sock then [r] else [])"

text \<open>The reply of the outer \<open>catch\<close> block.\<close>

definition unhandled :: "tool_call_message \<Rightarrow> string \<Rightarrow> 'j tool_reply" where
  "unhandled m message =
     Tool_error (or_js (toolCallId m) (tool_call_id m)) Unhandled_tool_error message
       (Some ''Something went wrong while booking. Want to try a different time?'')"

text \<open>
  \<open>handleToolCallMessage(toolCallMessage, socket, baseUrl)\<close>. \<open>JSON_parse\<close>
  is \<open>JSON.parse\<close> (\<open>None\<close> when it throws) and \<open>fetch\<close> the request to
  \<open>/tools/hume/book-appointment\<close> with the parsed parameters as its body.
  The result is the list of replies sent on the socket and the list of
  bodies posted.
\<close>

definition handleToolCallMessage ::
    "(string \<Rightarrow> 'j option) \<Rightarrow> ('j \<Rightarrow> 'j fetched) \<Rightarrow> socket \<Rightarrow> tool_call_message \<Rightarrow>
     'j tool_reply list \<times> 'j list" where
  "handleToolCallMessage JSON_parse fetch sock m =
     (let nm = or_default (or_js (name m) (tool_name m)) [];
          callId = or_js (toolCallId m) (tool_call_id m);
          paramsStr = or_default (or_js (parameters m) (args m)) ''{}''
      in
      if nm \<noteq> ''book_appointment'' then
        (send_error sock
           (Tool_error callId Tool_not_found
              ''The requested tool is not supported by this server'' None), [])
      else
        (case JSON_parse paramsStr of
           None \<Rightarrow>
             (send_error sock
                (Tool_error callId Malformed_parameters ''Parameters were not valid JSON'' None),
              [])
         | Some params \<Rightarrow>
             (case fetch params of
                Rejected message \<Rightarrow> (send_error sock (unhandled m message), [params])
              | Responded status text json \<Rightarrow>
                  if \<not> (200 \<le> status \<and> status \<le> 299) then
                    (case text of
                       Inl message \<Rightarrow> (send_error sock (unhandled m message), [params])
                     | Inr t \<Rightarrow>
                         (send_error sock
                            (Tool_error callId (Bridge_error status)
                               (if take 500 t = [] then ''Error creating event'' else take 500 t)
                               (Some ''I could not book that time. Would you like to try another time?'')),
                          [params]))
                  else
                    (case json of
                       Inl message \<Rightarrow> (send_error sock (unhandled m message), [params])
                     | Inr content \<Rightarrow>
                         (send_response sock (Tool_response callId content), [params])))))"

subsection \<open>A reader of JSON texts\<close>

text \<open>
  Which strings \<open>JSON.parse\<close> accepts: the grammar of JSON texts, with
  nesting bounded by the fuel.
\<close>

definition is_json_ws :: "char \<Rightarrow> bool" where
  "is_json_ws c = (c = CHR 0x20 \<or> c = CHR 0x09 \<or> c = CHR 0x0A \<or> c = CHR 0x0D)"

definition skip_ws :: "string \<Rightarrow> string" where
  "skip_ws s = dropWhile is_json_ws s"

definition is_hex :: "char \<Rightarrow> bool" where
  "is_hex c = (c \<in> set ''0123456789abcdefABCDEF'')"

fun json_string_body :: "string \<Rightarrow> string option" where
  "json_string_body [] = None"
| "json_string_body [c] = (if c = CHR 0x22 then Some [] else None)"
| "json_string_body (c # e # r) =
     (if c = CHR 0x22 then Some (e # r)
      else if c = CHR 0x5C then
        (if e \<in> set [CHR 0x22, CHR 0x5C, CHR ''/'', CHR ''b'', CHR ''f'', CHR ''n'', CHR ''r'',
                       CHR ''t'']
         then json_string_body r
         else if e = CHR ''u'' \<and> 4 \<le> length r \<and> list_all is_hex (take 4 r)
         then json_string_body (drop 4 r)
         else None)
      else if (of_char c :: nat) < 32 then None
      else json_string_body (e # r))"

definition digits1 :: "string \<Rightarrow> string option" where
  "digits1 s = (case s of [] \<Rightarrow> None | d # r \<Rightarrow> if is_digit d then Some (dropWhile is_digit r) else None)"

definition json_number :: "string \<Rightarrow> string option" where
  "json_number s =
     (let s1 = (case s of [] \<Rightarrow> [] | c # r \<Rightarrow> if c = CHR ''-'' then r else s);
          s2 = (case s1 of [] \<Rightarrow> None
                | d # r \<Rightarrow> if d = CHR ''0'' then Some r else digits1 s1);
          s3 = (case s2 of None \<Rightarrow> None
                | Some [] \<Rightarrow> Some []
                | Some (c # r) \<Rightarrow> if c = CHR ''.'' then digits1 r else Some (c # r))
      in case s3 of
           None \<Rightarrow> None
         | Some [] \<Rightarrow> Some []
         | Some (c # r) \<Rightarrow>
             if c = CHR ''e'' \<or> c = CHR ''E'' then
               (case r of
                  [] \<Rightarrow> None
                | g # r' \<Rightarrow> if g = CHR ''+'' \<or> g = CHR ''-'' then digits1 r' else digits1 r)
             else Some (c # r))"

fun json_value :: "nat \<Rightarrow> string \<Rightarrow> string option"
  and json_elements :: "nat \<Rightarrow> string \<Rightarrow> string option"
  and json_members :: "nat \<Rightarrow> string \<Rightarrow> string option" where
  "json_value 0 s = None"
| "json_value (Suc n) s =
     (case skip_ws s of
        [] \<Rightarrow> None
      | c # r \<Rightarrow>
          if c = CHR ''{'' then
            (case skip_ws r of
               [] \<Rightarrow> None
             | c' # r' \<Rightarrow> if c' = CHR ''}'' then Some r' else json_members n r)
          else if c = CHR ''['' then
            (case skip_ws r of
               [] \<Rightarrow> None
             | c' # r' \<Rightarrow> if c' = CHR '']'' then Some r' else json_elements n r)
          else if c = CHR 0x22 then json_string_body r
          else if starts_with (c # r) ''true'' then Some (drop 4 (c # r))
          else if starts_with (c # r) ''false'' then Some (drop 5 (c # r))
          else if starts_with (c # r) ''null'' then Some (drop 4 (c # r))
          else json_number (c # r))"
| "json_elements 0 s = None"
| "json_elements (Suc n) s =
     (case json_value n s of
        None \<Rightarrow> None
      | Some r \<Rightarrow>
          (case skip_ws r of
             [] \<Rightarrow> None
           | c # r' \<Rightarrow>
               if c = CHR '','' then json_elements n r'
               else if c = CHR '']'' then Some r' else None))"
| "json_members 0 s = None"
| "json_members (Suc n) s =
     (case skip_ws s of
        [] \<Rightarrow> None
      | q # r \<Rightarrow>
          if q \<noteq> CHR 0x22 then None
          else
            (case json_string_body r of
               None \<Rightarrow> None
             | Some r1 \<Rightarrow>
                 (case skip_ws r1 of
                    [] \<Rightarrow> None
                  | c # r2 \<Rightarrow>
                      if c \<noteq> CHR '':'' then None
                      else
                        (case json_value n r2 of
                           None \<Rightarrow> None
                         | Some r3 \<Rightarrow>
                             (case skip_ws r3 of
                                [] \<Rightarrow> None
                              | c' # r4 \<Rightarrow>
                                  if c' = CHR '','' then json_members n r4
                                  else if c' = CHR ''}'' then Some r4 else None)))))"

text \<open>
  \<open>JSON.parse\<close> as far as the handler needs it: the value of a JSON text,
  here the text itself, or \<open>None\<close> where \<open>JSON.parse\<close> throws.
\<close>

definition JSON_parse_text :: "string \<Rightarrow> string option" where
  "JSON_parse_text s =
     (case json_value (2 * length s + 2) s of
        None \<Rightarrow> None
      | Some r \<Rightarrow> if skip_ws r = [] then Some s else None)"

section \<open>services/twilio-hume-bridge.js\<close>

text \<open>
  A message from Twilio after \<open>JSON.parse\<close>: a text that does not parse, a
  \<open>media\<close> event with the payload of its \<open>media\<close> object (\<open>None\<close> when
  the object has no payload), a \<open>media\<close> event without a \<open>media\<close> object
  (reading its payload throws), \<open>start\<close>, \<open>stop\<close>, or another event.
\<close>

datatype twilio_message =
    Twilio_unparseable
  | Twilio_media "string option"
  | Twilio_media_missing
  | Twilio_start
  | Twilio_stop
  | Twilio_other

datatype hume_message =
    Hume_unparseable
  | Hume_tool_call tool_call_message
  | Hume_audio_output string
  | Hume_other

text \<open>
  The events the bridge has handlers for, and the settling of a request to
  the booking endpoint that a tool call is waiting for (the number says
  which of the requests in flight settles, counted from 0 in the order in
  which they were made).
\<close>

datatype bridge_event =
    Hume_open
  | Twilio_message twilio_message
  | Hume_message hume_message
  | Request_settled nat
  | Hume_close
  | Twilio_close
  | Hume_error
  | Twilio_error

text \<open>
  What the bridge hands to \<open>humeSocket.send\<close>: an \<open>audio_input\<close> with its
  data (\<open>None\<close> when the frame is written without data, the payload being
  \<open>undefined\<close>), or the reply to a tool call.
\<close>

datatype 'j hume_frame =
    Audio_input "string option"
  | Tool_reply "'j tool_reply"

text \<open>
  The state of one bridge: the flag \<open>humeReady\<close>, whether the ready state of
  the Hume socket is \<open>OPEN\<close> (from its \<open>open\<close> event until it closes or is
  asked to close), the frames handed to \<open>humeSocket.send\<close> and the payloads
  handed to \<open>twilioWs.send\<close> so far, the tool calls whose request to the
  booking endpoint has not settled yet, and how often each socket was asked
  to close.
\<close>

record 'j bridge_state =
  humeReady :: bool
  hume_is_open :: bool
  sent_to_hume :: "'j hume_frame list"
  sent_to_twilio :: "string list"
  in_flight :: "tool_call_message list"
  hume_close_calls :: nat
  twilio_close_calls :: nat

definition startTwilioHumeBridge :: "'j bridge_state" where
  "startTwilioHumeBridge =
     \<lparr>humeReady = False, hume_is_open = False, sent_to_hume = [], sent_to_twilio = [],
      in_flight = [], hume_close_calls = 0, twilio_close_calls = 0\<rparr>"

text \<open>The wrapper the bridge builds around the Hume socket has both methods.\<close>

definition socketWrapper :: socket where
  "socketWrapper = \<lparr>sendToolResponseMessage = True, sendToolErrorMessage = True\<rparr>"

text \<open>
  One event. The handler of a tool call runs up to its first \<open>await\<close>
  within the event: a call that makes no request to the booking endpoint
  (an unsupported tool, parameters that do not parse) is answered at once,
  and a call that makes one waits in flight, while other events are
  handled, until its request settles; then the rest of the handler runs
  and sends the reply. The replies go to \<open>humeSocket.send\<close> through the
  wrapper, whatever \<open>humeReady\<close> is.
\<close>

fun bridge_step ::
    "(string \<Rightarrow> 'j option) \<Rightarrow> ('j \<Rightarrow> 'j fetched) \<Rightarrow> 'j bridge_state \<Rightarrow> bridge_event \<Rightarrow>
     'j bridge_state" where
  "bridge_step P F s Hume_open = s\<lparr>humeReady := True, hume_is_open := True\<rparr>"
| "bridge_step P F s (Twilio_message (Twilio_media payload)) =
     (if humeReady s then s\<lparr>sent_to_hume := sent_to_hume s @ [Audio_input payload]\<rparr> else s)"
| "bridge_step P F s (Twilio_message Twilio_stop) =
     s\<lparr>hume_is_open := False, hume_close_calls := hume_close_calls s + 1\<rparr>"
| "bridge_step P F s (Twilio_message other) = s"
| "bridge_step P F s (Hume_message (Hume_tool_call m)) =
     (if snd (handleToolCallMessage P F socketWrapper m) = [] then
        s\<lparr>sent_to_hume :=
            sent_to_hume s @ map Tool_reply (fst (handleToolCallMessage P F socketWrapper m))\<rparr>
      else s\<lparr>in_flight := in_flight s @ [m]\<rparr>)"
| "bridge_step P F s (Hume_message (Hume_audio_output d)) =
     s\<lparr>sent_to_twilio := sent_to_twilio s @ [d]\<rparr>"
| "bridge_step P F s (Hume_message other) = s"
| "bridge_step P F s (Request_settled i) =
     (if i < length (in_flight s) then
        s\<lparr>sent_to_hume :=
            sent_to_hume s @
            map Tool_reply (fst (handleToolCallMessage P F socketWrapper (in_flight s ! i))),
          in_flight := take i (in_flight s) @ drop (Suc i) (in_flight s)\<rparr>
      else s)"
| "bridge_step P F s Hume_close =
     s\<lparr>hume_is_open := False, twilio_close_calls := twilio_close_calls s + 1\<rparr>"
| "bridge_step P F s Twilio_close =
     (if hume_is_open s
      then s\<lparr>hume_is_open := False, hume_close_calls := hume_close_calls s + 1\<rparr> else s)"
| "bridge_step P F s Hume_error = s"
| "bridge_step P F s Twilio_error = s"

definition bridge_run ::
    "(string \<Rightarrow> 'j option) \<Rightarrow> ('j \<Rightarrow> 'j fetched) \<Rightarrow> 'j bridge_state \<Rightarrow> bridge_event list \<Rightarrow>
     'j bridge_state" where
  "bridge_run P F s evs = foldl (bridge_step P F) s evs"

text \<open>The audio payloads among the frames sent to Hume.\<close>

fun audio_inputs :: "'j hume_frame list \<Rightarrow> string option list" where
  "audio_inputs [] = []"
| "audio_inputs (Audio_input p # fs) = p # audio_inputs fs"
| "audio_inputs (Tool_reply r # fs) = audio_inputs fs"

text \<open>
  The payloads of the media frames among a run of events, those frames
  left out that have no \<open>media\<close> object.
\<close>

fun media_payloads :: "bridge_event list \<Rightarrow> string option list" where
  "media_payloads [] = []"
| "media_payloads (Twilio_message (Twilio_media p) # evs) = p # media_payloads evs"
| "media_payloads (e # evs) = media_payloads evs"

section \<open>Evaluation rules\<close>

lemma year_search_go: "DayFromYear (y + 1) \<le> d \<Longrightarrow> year_search y d = year_search (y + 1) d"
  by (simp add: year_search.simps[of y d])

lemma year_search_stop: "\<not> DayFromYear (y + 1) \<le> d \<Longrightarrow> year_search y d = y"
  by (simp add: year_search.simps[of y d])

lemmas time_defs = msPerDay_def msPerHour_def msPerMinute_def LocalTime_def UTC_def Day_def
  TimeWithinDay_def plus_days_def plus_minutes_def set_hour_def MakeDate_def MakeTime_def

lemma setFullYear_unfold:
  "setFullYear z t year =
     UTC z (MakeDate (MakeDay year (MonthFromTime (LocalTime z t)) (DateFromTime (LocalTime z t)))
       (TimeWithinDay (LocalTime z t)))"
  unfolding setFullYear_def Let_def by (rule refl)

lemmas cal_eval = year_search_go year_search_stop YearFromDay_def YearFromTime_def
  DayFromYear_def DaysInYear_def InLeapYear_def DayWithinYear_def month_start_def
  MonthFromTime_def DateFromTime_def MakeDay_def WeekDay_def HourFromTime_def MinFromTime_def
  getFullYear_def

lemmas str_eval = toLowerCase_def lower_char_def trim_def is_space_def is_digit_def
  digit_val_def decimal_def Number_def

lemma div_mod_decomp:
  fixes q r k :: int
  assumes "0 \<le> r" and "r < k"
  shows "(q * k + r) div k = q" and "(q * k + r) mod k = r"
proof -
  have e: "q * k + r = k * q + r" by simp
  show "(q * k + r) div k = q" by (rule int_div_pos_eq[OF e assms])
  show "(q * k + r) mod k = r" by (rule int_mod_pos_eq[OF e assms])
qed

section \<open>Properties of the calendar\<close>

lemma year_search_spec:
  "DayFromYear y \<le> d \<Longrightarrow>
   DayFromYear (year_search y d) \<le> d \<and> d < DayFromYear (year_search y d + 1)"
proof (induction y d rule: year_search.induct)
  case (1 y d)
  show ?case
  proof (cases "DayFromYear (y + 1) \<le> d")
    case True
    then show ?thesis using "1.IH" by (simp add: year_search.simps[of y d])
  next
    case False
    then show ?thesis using "1.prems" by (simp add: year_search.simps[of y d])
  qed
qed

lemma DayFromYear_upper: "1970 \<le> y \<Longrightarrow> DayFromYear y \<le> 366 * (y - 1970)"
proof (induction y rule: int_ge_induct)
  case base
  show ?case by (simp add: DayFromYear_def)
next
  case (step i)
  then show ?case using DaysInYear_range[of i] by (simp add: DayFromYear_Suc)
qed

lemma DayFromYear_lower: "y \<le> 1970 \<Longrightarrow> DayFromYear y \<le> 365 * (y - 1970)"
proof (induction y rule: int_le_induct)
  case base
  show ?case by (simp add: DayFromYear_def)
next
  case (step i)
  have "DayFromYear i = DayFromYear (i - 1) + DaysInYear (i - 1)"
    using DayFromYear_Suc[of "i - 1"] by simp
  then show ?case using step DaysInYear_range[of "i - 1"] by simp
qed

lemma mult_div_le_int:
  fixes d k :: int
  assumes "0 < k"
  shows "k * (d div k) \<le> d"
proof -
  have "0 \<le> d mod k" using assms by simp
  moreover have "k * (d div k) + d mod k = d" by (rule mult_div_mod_eq)
  ultimately show ?thesis by linarith
qed

lemma year_guess: "DayFromYear (1970 + (if d < 0 then d div 365 else d div 366)) \<le> d"
proof (cases "d < 0")
  case True
  define q where "q = d div 365"
  have "q < 0" unfolding q_def using True by (simp add: pos_imp_zdiv_neg_iff)
  then have "DayFromYear (1970 + q) \<le> 365 * q"
    using DayFromYear_lower[of "1970 + q"] by simp
  also have "\<dots> \<le> d" unfolding q_def by (rule mult_div_le_int) simp
  finally show ?thesis using True by (simp add: q_def)
next
  case False
  define q where "q = d div 366"
  have "0 \<le> q" unfolding q_def using False by (simp add: pos_imp_zdiv_nonneg_iff)
  then have "DayFromYear (1970 + q) \<le> 366 * q"
    using DayFromYear_upper[of "1970 + q"] by simp
  also have "\<dots> \<le> d" unfolding q_def by (rule mult_div_le_int) simp
  finally show ?thesis using False by (simp add: q_def)
qed

lemma YearFromDay_spec:
  "DayFromYear (YearFromDay d) \<le> d \<and> d < DayFromYear (YearFromDay d + 1)"
  unfolding YearFromDay_def by (rule year_search_spec[OF year_guess])

lemma DayFromYear_mono_aux: "0 \<le> n \<Longrightarrow> DayFromYear y + 365 * n \<le> DayFromYear (y + n)"
proof (induction n rule: int_ge_induct)
  case base
  show ?case by simp
next
  case (step i)
  have "DayFromYear (y + i) + 365 \<le> DayFromYear (y + i + 1)" by (rule DayFromYear_step)
  then show ?case using step by (simp add: algebra_simps)
qed

lemma DayFromYear_mono: "y1 \<le> y2 \<Longrightarrow> DayFromYear y1 \<le> DayFromYear y2"
  using DayFromYear_mono_aux[of "y2 - y1" y1] by simp

lemma DayFromYear_less: "DayFromYear y1 < DayFromYear y2 \<Longrightarrow> y1 < y2"
  using DayFromYear_mono[of y2 y1] by linarith

lemma YearFromDay_unique:
  assumes "DayFromYear y \<le> d" and "d < DayFromYear (y + 1)"
  shows "YearFromDay d = y"
proof -
  have s: "DayFromYear (YearFromDay d) \<le> d" "d < DayFromYear (YearFromDay d + 1)"
    using YearFromDay_spec[of d] by simp_all
  have "DayFromYear y < DayFromYear (YearFromDay d + 1)" using assms(1) s(2) by linarith
  then have "y < YearFromDay d + 1" by (rule DayFromYear_less)
  moreover have "DayFromYear (YearFromDay d) < DayFromYear (y + 1)"
    using assms(2) s(1) by linarith
  then have "YearFromDay d < y + 1" by (rule DayFromYear_less)
  ultimately show ?thesis by simp
qed

lemma YearFromDay_mono:
  assumes "d1 \<le> d2"
  shows "YearFromDay d1 \<le> YearFromDay d2"
proof -
  have "DayFromYear (YearFromDay d1) \<le> d1" using YearFromDay_spec[of d1] by simp
  moreover have "d2 < DayFromYear (YearFromDay d2 + 1)" using YearFromDay_spec[of d2] by simp
  ultimately have "DayFromYear (YearFromDay d1) < DayFromYear (YearFromDay d2 + 1)"
    using assms by linarith
  then have "YearFromDay d1 < YearFromDay d2 + 1" by (rule DayFromYear_less)
  then show ?thesis by simp
qed


lemma TimeWithinDay_range: "0 \<le> TimeWithinDay t \<and> TimeWithinDay t < msPerDay"
  by (simp add: TimeWithinDay_def msPerDay_def)

lemma Day_MakeDate:
  assumes "0 \<le> r" and "r < msPerDay"
  shows "Day (MakeDate n r) = n"
  unfolding Day_def MakeDate_def by (rule div_mod_decomp(1)[OF assms])

lemma Day_mono:
  assumes "t1 \<le> t2"
  shows "Day t1 \<le> Day t2"
  unfolding Day_def using assms by (rule zdiv_mono1) (simp add: msPerDay_def)

lemma getFullYear_mono:
  assumes "t1 \<le> t2"
  shows "getFullYear z t1 \<le> getFullYear z t2"
proof -
  have "LocalTime z t1 \<le> LocalTime z t2" using assms by (simp add: LocalTime_def)
  then have "Day (LocalTime z t1) \<le> Day (LocalTime z t2)" by (rule Day_mono)
  then show ?thesis unfolding getFullYear_def YearFromTime_def by (rule YearFromDay_mono)
qed

lemma DayWithinYear_range:
  "0 \<le> DayWithinYear t \<and> DayWithinYear t < 365 + InLeapYear t"
proof -
  define y where "y = YearFromTime t"
  have s: "DayFromYear y \<le> Day t" "Day t < DayFromYear (y + 1)"
    using YearFromDay_spec[of "Day t"] by (simp_all add: y_def YearFromTime_def)
  have l: "DaysInYear y = 365 + InLeapYear t"
    using DaysInYear_range[of y] by (simp add: InLeapYear_def y_def[symmetric])
  show ?thesis
    using s l DayFromYear_Suc[of y] by (simp add: DayWithinYear_def y_def[symmetric])
qed

lemma InLeapYear_range: "InLeapYear t = 0 \<or> InLeapYear t = 1"
  by (simp add: InLeapYear_def)

lemma MonthFromTime_range: "0 \<le> MonthFromTime t \<and> MonthFromTime t \<le> 11"
  by (simp add: MonthFromTime_def Let_def)

lemma new_day_in_year:
  assumes "0 \<le> d" and "d < 365 + l" and "l = 0 \<or> l = 1" and "l' = 0 \<or> l' = 1"
  defines "m \<equiv> (if d < 31 then 0 else if d < 59 + l then 1 else if d < 90 + l then 2
      else if d < 120 + l then 3 else if d < 151 + l then 4 else if d < 181 + l then 5
      else if d < 212 + l then 6 else if d < 243 + l then 7 else if d < 273 + l then 8
      else if d < 304 + l then 9 else if d < 334 + l then 10 else (11::int))"
  shows "0 \<le> month_start l' m + (d - month_start l m + 1) - 1"
    and "month_start l' m + (d - month_start l m + 1) - 1 < 365 + l'"
  using assms(1-4) unfolding m_def month_start_def by auto

lemma MakeDay_in_year:
  assumes "0 \<le> m" and "m \<le> 11"
  shows "MakeDay year m dt =
           DayFromYear year + month_start (if DaysInYear year = 366 then 1 else 0) m + dt - 1"
proof -
  have "m div 12 = 0" "m mod 12 = m" using assms by simp_all
  then show ?thesis by (simp add: MakeDay_def Let_def)
qed

lemma LocalTime_UTC: "LocalTime z (UTC z l) = l"
  by (simp add: LocalTime_def UTC_def)

lemma getFullYear_setFullYear: "getFullYear z (setFullYear z t year) = year"
proof -
  define lt where "lt = LocalTime z t"
  define d where "d = DayWithinYear lt"
  define l where "l = InLeapYear lt"
  define l' :: int where "l' = (if DaysInYear year = 366 then 1 else 0)"
  define m where "m = MonthFromTime lt"
  define n where "n = month_start l' m + (d - month_start l m + 1) - 1"
  have dr: "0 \<le> d" "d < 365 + l"
    using DayWithinYear_range[of lt] by (simp_all add: d_def l_def)
  have lr: "l = 0 \<or> l = 1" unfolding l_def by (rule InLeapYear_range)
  have lr': "l' = 0 \<or> l' = 1" by (simp add: l'_def)
  have me: "m = (if d < 31 then 0 else if d < 59 + l then 1 else if d < 90 + l then 2
      else if d < 120 + l then 3 else if d < 151 + l then 4 else if d < 181 + l then 5
      else if d < 212 + l then 6 else if d < 243 + l then 7 else if d < 273 + l then 8
      else if d < 304 + l then 9 else if d < 334 + l then 10 else 11)"
    by (simp add: m_def MonthFromTime_def Let_def d_def l_def)
  have nr: "0 \<le> n" "n < 365 + l'"
    unfolding n_def me using new_day_in_year[OF dr lr lr'] by simp_all
  have mr: "0 \<le> m" "m \<le> 11" using MonthFromTime_range[of lt] by (simp_all add: m_def)
  have dt: "DateFromTime lt = d - month_start l m + 1"
    by (simp add: DateFromTime_def d_def l_def m_def)
  have mk: "MakeDay year m (DateFromTime lt) = DayFromYear year + n"
    unfolding MakeDay_in_year[OF mr] dt n_def l'_def by simp
  have dy: "DaysInYear year = 365 + l'"
    using DaysInYear_range[of year] by (simp add: l'_def)
  have yr: "YearFromDay (DayFromYear year + n) = year"
    by (rule YearFromDay_unique) (use nr dy DayFromYear_Suc[of year] in simp_all)
  have "LocalTime z (setFullYear z t year) =
          MakeDate (MakeDay year m (DateFromTime lt)) (TimeWithinDay lt)"
    by (simp add: setFullYear_unfold LocalTime_UTC lt_def m_def)
  then have "Day (LocalTime z (setFullYear z t year)) = DayFromYear year + n"
    using Day_MakeDate[of "TimeWithinDay lt" "MakeDay year m (DateFromTime lt)"]
      TimeWithinDay_range[of lt] mk by simp
  then show ?thesis by (simp add: getFullYear_def YearFromTime_def yr)
qed

section \<open>Properties of the date parser\<close>

lemma ensureFuture_after: "now < ensureFuture dt now b"
  by (simp add: ensureFuture_def Let_def plus_minutes_def msPerMinute_def)

text \<open>
  The future-safety pass as a function of its flag: an instant after the
  reference is kept; one at or before it is moved by 7 days under the
  weekday bias and by 1 day otherwise; when that is still not after the
  reference the result is the reference plus 5 minutes.
\<close>

lemma ensureFuture_spec:
  "ensureFuture dt now b =
     (if now < dt then dt
      else if now < dt + (if b then 7 else 1) * msPerDay then dt + (if b then 7 else 1) * msPerDay
      else now + 5 * msPerMinute)"
  by (simp add: ensureFuture_def Let_def plus_days_def plus_minutes_def)

lemma set_hour_local:
  assumes "0 \<le> h" and "h < 24"
  shows "Day (LocalTime z (set_hour z dt h)) = Day (LocalTime z dt)"
    and "TimeWithinDay (LocalTime z (set_hour z dt h)) = h * msPerHour"
proof -
  define q where "q = LocalTime z dt div msPerDay"
  define r where "r = h * msPerHour"
  have r: "0 \<le> r" "r < msPerDay"
    using assms by (simp_all add: r_def msPerHour_def msPerDay_def)
  have l: "LocalTime z (set_hour z dt h) = q * msPerDay + r"
    by (simp add: LocalTime_def set_hour_def UTC_def Day_def q_def r_def)
  show "Day (LocalTime z (set_hour z dt h)) = Day (LocalTime z dt)"
    unfolding l Day_def using div_mod_decomp(1)[OF r] by (simp add: q_def)
  show "TimeWithinDay (LocalTime z (set_hour z dt h)) = h * msPerHour"
    unfolding l TimeWithinDay_def using div_mod_decomp(2)[OF r] by (simp add: r_def)
qed

text \<open>
  The year-safety pass on an input that \<open>new Date\<close> can read. The result is
  never before \<open>now\<close> and never in a year before the year of \<open>now\<close>; it is
  strictly after \<open>now\<close> unless the input, after the replacement of an
  earlier year, is \<open>now\<close> itself, and then the result is \<open>now\<close>.
\<close>

lemma ensureFutureIso_year_pass:
  assumes "inputIso \<noteq> []" and "Date_parse inputIso = Some parsed"
    and now_def: "now = now_of_clock clock"
    and candidate_def: "candidate = (if getFullYear z parsed < getFullYear z now
                           then setFullYear z parsed (getFullYear z now) else parsed)"
  shows "\<exists>out. ensureFutureIso Date_parse z clock inputIso = Iso out \<and>
               getFullYear z now \<le> getFullYear z out \<and> now \<le> out \<and>
               (candidate \<noteq> now \<longrightarrow> now < out) \<and>
               (candidate = now \<longrightarrow> out = now)"
proof -
  define out where "out = (if candidate < now
                           then setFullYear z candidate (getFullYear z candidate + 1)
                           else candidate)"
  have e: "ensureFutureIso Date_parse z clock inputIso = Iso out"
    using assms(1,2) by (simp add: ensureFutureIso_def Let_def out_def candidate_def now_def)
  have cy: "getFullYear z now \<le> getFullYear z candidate"
    by (simp add: candidate_def getFullYear_setFullYear)
  show ?thesis
  proof (cases "candidate < now")
    case True
    then have "getFullYear z candidate \<le> getFullYear z now"
      by (intro getFullYear_mono) simp
    then have y: "getFullYear z candidate = getFullYear z now" using cy by simp
    have o: "out = setFullYear z candidate (getFullYear z now + 1)"
      using True by (simp add: out_def y)
    have oy: "getFullYear z out = getFullYear z now + 1"
      unfolding o by (rule getFullYear_setFullYear)
    have "now < out"
    proof (rule ccontr)
      assume "\<not> now < out"
      then have "out \<le> now" by simp
      then have "getFullYear z out \<le> getFullYear z now" by (rule getFullYear_mono)
      then show False using oy by simp
    qed
    then show ?thesis using e oy True by auto
  next
    case False
    then have "out = candidate" by (simp add: out_def)
    then show ?thesis using e cy False by auto
  qed
qed


lemma ensureFutureIso_eval:
  "Date_parse_iso ''2024-06-10T09:00:00.000Z'' = Some 1718010000000"
  "getFullYear 0 1718010000000 = 2024"
  "getFullYear 0 1749549600000 = 2025"
  "setFullYear 0 1718010000000 2025 = 1749546000000"
proof -
  show "Date_parse_iso ''2024-06-10T09:00:00.000Z'' = Some 1718010000000" by code_simp
  show "getFullYear 0 1718010000000 = 2024" by (simp add: time_defs cal_eval)
  show "getFullYear 0 1749549600000 = 2025" by (simp add: time_defs cal_eval)
  show "setFullYear 0 1718010000000 2025 = 1749546000000"
    by (simp add: setFullYear_unfold time_defs cal_eval)
qed

text \<open>
  C1, as amended. Whenever \<open>parseRelativeDateToISO\<close> returns a timestamp, the
  timestamp is strictly after the reference instant it worked from: the
  \<open>now\<close> of the call when one is given, the clock otherwise. This holds for
  every parser result, every phrase and every zone. And \<open>ensureFutureIso\<close>,
  given an explicit timestamp that \<open>new Date\<close> can read, returns a timestamp
  strictly after its \<open>now\<close> whenever the input, after the replacement of an
  earlier year, is not \<open>now\<close> itself.
\<close>

theorem resolver_strictly_future:
  "(parseRelativeDateToISO chrono clock text z now = Some t \<longrightarrow>
      (case now of Some n \<Rightarrow> n | None \<Rightarrow> clock) < t) \<and>
   (inputIso \<noteq> [] \<longrightarrow> Date_parse inputIso = Some parsed \<longrightarrow>
    (if getFullYear lz parsed < getFullYear lz (now_of_clock clock')
     then setFullYear lz parsed (getFullYear lz (now_of_clock clock')) else parsed)
      \<noteq> now_of_clock clock' \<longrightarrow>
    (\<exists>out. ensureFutureIso Date_parse lz clock' inputIso = Iso out \<and>
           now_of_clock clock' < out))"
proof (intro conjI impI)
  assume a: "parseRelativeDateToISO chrono clock text z now = Some t"
  define ref where "ref = (case now of Some n \<Rightarrow> n | None \<Rightarrow> clock)"
  obtain r rs where "chrono text ref = r # rs"
    using a by (cases "chrono text ref") (simp_all add: parseRelativeDateToISO_def ref_def)
  then have "t = ensureFuture (applyHint z text r) ref (truthy (weekday r))"
    using a by (simp add: parseRelativeDateToISO_def ref_def Let_def)
  then show "(case now of Some n \<Rightarrow> n | None \<Rightarrow> clock) < t"
    using ensureFuture_after[of ref] by (simp add: ref_def)
next
  assume "inputIso \<noteq> []" and "Date_parse inputIso = Some parsed"
    and "(if getFullYear lz parsed < getFullYear lz (now_of_clock clock')
          then setFullYear lz parsed (getFullYear lz (now_of_clock clock')) else parsed)
           \<noteq> now_of_clock clock'"
  then show "\<exists>out. ensureFutureIso Date_parse lz clock' inputIso = Iso out \<and>
                  now_of_clock clock' < out"
    using ensureFutureIso_year_pass[of inputIso Date_parse parsed "now_of_clock clock'" clock'
        _ lz]
    by blast
qed

text \<open>
  The phrase "tomorrow at 3pm" against 2025-06-10 10:00 UTC, and the
  explicit timestamp 2024-06-10T09:00:00.000Z against the clock at
  2025-06-10 10:00:00.250 UTC.
\<close>

theorem resolver_strictly_future_witness:
  "parseRelativeDateToISO
     (\<lambda>text ref. [\<lparr>start_date = 1749654000000, hourCertain = True, weekday = None\<rparr>])
     0 ''tomorrow at 3pm'' 0 (Some 1749549600000) = Some 1749654000000 \<and>
   (1749549600000 :: int) < 1749654000000 \<and>
   (\<exists>out. ensureFutureIso Date_parse_iso 0 1749549600250 ''2024-06-10T09:00:00.000Z'' = Iso out \<and>
          now_of_clock 1749549600250 < out)"
proof -
  have e: "parseRelativeDateToISO
     (\<lambda>text ref. [\<lparr>start_date = 1749654000000, hourCertain = True, weekday = None\<rparr>])
     0 ''tomorrow at 3pm'' 0 (Some 1749549600000) = Some 1749654000000"
    by (simp add: parseRelativeDateToISO_def applyHint_def truthy_def ensureFuture_def)
  have n: "now_of_clock 1749549600250 = 1749549600000" by (simp add: now_of_clock_def)
  show ?thesis
    using e n ensureFutureIso_eval
      resolver_strictly_future[of
        "\<lambda>text ref. [\<lparr>start_date = 1749654000000, hourCertain = True, weekday = None\<rparr>]"
        0 "''tomorrow at 3pm''" 0 "Some 1749549600000" 1749654000000
        "''2024-06-10T09:00:00.000Z''" Date_parse_iso 1718010000000 0 1749549600250]
    by simp
qed

text \<open>
  C5, at the input where the code and the claim part. The reference is
  Sunday 2025-06-08 19:00 UTC and the phrase is "sunday evening": chrono
  gives that Sunday at 20:00 with an hour that is not certain and the
  weekday 0. The day-part hint moves the time to 18:00, which is before
  the reference; \<open>!!0\<close> is false, so the pass adds one day and the result is
  Monday 2025-06-09 18:00, not the Sunday seven days later.
\<close>

theorem parseRelativeDateToISO_sunday_evening:
  "WeekDay (MakeDate (MakeDay 2025 5 8) (MakeTime 19 0 0 0)) = 0 \<and>
   parseRelativeDateToISO
     (\<lambda>text ref. [\<lparr>start_date = MakeDate (MakeDay 2025 5 8) (MakeTime 20 0 0 0),
                    hourCertain = False, weekday = Some 0\<rparr>])
     0 ''sunday evening'' 0 (Some (MakeDate (MakeDay 2025 5 8) (MakeTime 19 0 0 0)))
   = Some (MakeDate (MakeDay 2025 5 9) (MakeTime 18 0 0 0)) \<and>
   MakeDate (MakeDay 2025 5 9) (MakeTime 18 0 0 0) \<noteq>
     plus_days (MakeDate (MakeDay 2025 5 8) (MakeTime 18 0 0 0)) 7"
  by (simp add: parseRelativeDateToISO_def applyHint_def pickDefaultHourByHint_def
      truthy_def ensureFuture_def str_eval time_defs cal_eval)

text \<open>
  For every other weekday the flag is set, and the pass moves an instant at
  or before the reference by 7 days.
\<close>

lemma weekday_bias_other_days:
  assumes "chrono text ref = r # rs" and "weekday r = Some n" and "n \<noteq> 0"
    and "applyHint z text r \<le> ref" and "ref < applyHint z text r + 7 * msPerDay"
  shows "parseRelativeDateToISO chrono clock text z (Some ref) =
           Some (applyHint z text r + 7 * msPerDay)"
  using assms by (simp add: parseRelativeDateToISO_def truthy_def ensureFuture_spec)

text \<open>
  C9, as stated, fails on a phrase that holds two of the keywords: this
  one contains "afternoon" and is given 09:00, because "morning" is looked
  for first.
\<close>

theorem applyHint_afternoon_counterexample:
  "str_includes (toLowerCase ''monday afternoon, not the morning'') ''afternoon'' \<and>
   TimeWithinDay (LocalTime 0
     (applyHint 0 ''monday afternoon, not the morning''
        \<lparr>start_date = MakeDate (MakeDay 2025 5 9) (MakeTime 12 0 0 0),
         hourCertain = False, weekday = Some 1\<rparr>)) = 9 * msPerHour \<and>
   9 * msPerHour \<noteq> 14 * msPerHour"
  by (simp add: applyHint_def pickDefaultHourByHint_def str_eval time_defs cal_eval)

text \<open>
  C9, as amended. When the hour of the parse is not certain, the instant
  handed to the future-safety pass keeps the local day of the parse and has
  the local time 09:00:00.000 when the phrase, in lower case, contains
  "morning"; 14:00:00.000 when it does not but contains "afternoon";
  18:00:00.000 when it contains neither but contains "evening"; and with
  none of the three it is the parser's instant unchanged.
\<close>

theorem applyHint_day_part:
  assumes "hourCertain r = False"
  shows "Day (LocalTime z (applyHint z text r)) = Day (LocalTime z (start_date r)) \<and>
    TimeWithinDay (LocalTime z (applyHint z text r)) =
      (if str_includes (toLowerCase text) ''morning'' then 9 * msPerHour
       else if str_includes (toLowerCase text) ''afternoon'' then 14 * msPerHour
       else if str_includes (toLowerCase text) ''evening'' then 18 * msPerHour
       else TimeWithinDay (LocalTime z (start_date r))) \<and>
    (if str_includes (toLowerCase text) ''morning'' \<or>
        str_includes (toLowerCase text) ''afternoon'' \<or>
        str_includes (toLowerCase text) ''evening''
     then True else applyHint z text r = start_date r)"
  using assms set_hour_local[of 9 z "start_date r"] set_hour_local[of 14 z "start_date r"]
    set_hour_local[of 18 z "start_date r"]
  by (simp add: applyHint_def pickDefaultHourByHint_def)

theorem applyHint_day_part_witness:
  "TimeWithinDay (LocalTime 0
     (applyHint 0 ''next tuesday morning''
        \<lparr>start_date = 1749470400000, hourCertain = False, weekday = Some 2\<rparr>)) = 9 * msPerHour"
  using applyHint_day_part[of "\<lparr>start_date = 1749470400000, hourCertain = False, weekday = Some 2\<rparr>"
      0 "''next tuesday morning''"]
  by (simp add: str_eval)

section \<open>Properties of the booking endpoint\<close>

lemmas body_eval = booking_parts_def or_default_def trim_def is_space_def luxon_24h_def
  parseDate_def is_ymd_def is_digit_def decimal_def digit_val_def parseTime_def toLowerCase_def
  lower_char_def hour_24_def

lemma roll_end_spec:
  "roll_end (Some s) (Some e) = Some (if e \<le> s then e + msPerDay else e)"
  by (simp add: roll_end_def plus_days_def)

lemma fromObject_eval:
  "fromObject 0 (2025, 1, 6) (9, 0) = Some 1736154000000"
  "fromObject (- 360) (2025, 1, 5) (7, 30) = Some 1736083800000"
  "fromObject (- 360) (2025, 1, 5) (8, 0) = Some 1736085600000"
  "fromObject 0 (2020, 1, 6) (9, 0) = Some 1578301200000"
  "fromObject 0 (2020, 1, 6) (9, 30) = Some 1578303000000"
  by (simp_all add: fromObject_def daysInMonth_def time_defs cal_eval)

lemma days_1_5: "parseBusinessDays ''1-5'' = [1, 2, 3, 4, 5]"
  by (simp add: parseBusinessDays_def days_of_part_def str_eval upto.simps)

lemma open_close_9_17: "openMin ''09:00-17:00'' = 540" "closeMin ''09:00-17:00'' = 1020"
  by (simp_all add: openMin_def closeMin_def hour_minute_def str_eval)

lemma sunday_0730_closed:
  "\<not> isWithinBusinessHoursAt (Some 1736083800000) (- 360) ''09:00-17:00'' ''1-5''"
proof -
  have g: "getPartsForDateInTimezone 1736083800000 (- 360) = (0, 450)"
    by (simp add: getPartsForDateInTimezone_def time_defs cal_eval)
  show ?thesis by (simp add: isWithinBusinessHoursAt_def days_1_5 g)
qed

text \<open>
  C1, as stated, fails on the booking endpoint. With the clock at
  2025-06-10 10:00 UTC, a request for 2020-01-06 from 09:00 to 09:30 is
  sent to the calendar as it is, and the event is created with a start more
  than five years before the clock.
\<close>

theorem book_appointment_past_counterexample:
  "book_appointment luxon_24h ''UTC'' ''our office''
     (MakeDate (MakeDay 2025 5 10) (MakeTime 10 0 0 0)) (\<lambda>r. Inr ''event-1'')
     \<lparr>calendarId = None, date = Some ''2020-01-06'', startTime = Some ''09:00'',
      endTime = Some ''09:30'', timezone = None, summary = None, description = None,
      attendees = None\<rparr>
   = (Ok_event ''event-1'',
      [\<lparr>ev_calendarId = ''primary'', ev_summary = ''Call with our office'',
        ev_description = ''Booked via Hume tool book_appointment'',
        ev_start_dateTime = Some (MakeDate (MakeDay 2020 0 6) (MakeTime 9 0 0 0)),
        ev_end_dateTime = Some (MakeDate (MakeDay 2020 0 6) (MakeTime 9 30 0 0)),
        ev_timeZone = ''UTC'', ev_attendees = None\<rparr>]) \<and>
   MakeDate (MakeDay 2020 0 6) (MakeTime 9 0 0 0) < MakeDate (MakeDay 2025 5 10) (MakeTime 10 0 0 0)"
proof -
  have m: "MakeDate (MakeDay 2020 0 6) (MakeTime 9 0 0 0) = 1578301200000"
    "MakeDate (MakeDay 2020 0 6) (MakeTime 9 30 0 0) = 1578303000000"
    "MakeDate (MakeDay 2025 5 10) (MakeTime 10 0 0 0) = 1749549600000"
    by (simp_all add: time_defs cal_eval)
  show ?thesis
    unfolding m by (simp add: book_appointment_def body_eval fromObject_eval roll_end_spec)
qed

text \<open>
  C2, as stated, fails on the booking endpoint. The request of the spec's
  scenario D (2025-01-05, a Sunday, 07:30 in America/Chicago, against the
  hours 09:00-17:00 on days 1-5) is outside the business hours, and the
  endpoint answers with the event the calendar created for it.
\<close>

theorem book_appointment_no_gate_counterexample:
  "\<not> isWithinBusinessHoursAt (Some 1736083800000) (- 360) ''09:00-17:00'' ''1-5'' \<and>
   book_appointment luxon_24h ''America/Chicago'' ''our office'' 1735000000000
     (\<lambda>r. Inr ''event-1'')
     \<lparr>calendarId = None, date = Some ''2025-01-05'', startTime = Some ''07:30'',
      endTime = Some ''08:00'', timezone = None, summary = None, description = None,
      attendees = None\<rparr>
   = (Ok_event ''event-1'',
      [\<lparr>ev_calendarId = ''primary'', ev_summary = ''Call with our office'',
        ev_description = ''Booked via Hume tool book_appointment'',
        ev_start_dateTime = Some 1736083800000, ev_end_dateTime = Some 1736085600000,
        ev_timeZone = ''America/Chicago'', ev_attendees = None\<rparr>])"
  using sunday_0730_closed
  by (simp add: book_appointment_def body_eval fromObject_eval roll_end_spec)

text \<open>
  Saturday 2025-01-04 at 20:00 in America/Chicago is outside the hours
  09:00-17:00 on days 1-5.
\<close>

lemma fromObject_saturday:
  "fromObject (- 360) (2025, 1, 4) (20, 0) = Some 1736042400000"
  "fromObject (- 360) (2025, 1, 4) (21, 0) = Some 1736046000000"
  by (simp_all add: fromObject_def daysInMonth_def time_defs cal_eval)

lemma saturday_2000_closed:
  "\<not> isWithinBusinessHoursAt (Some 1736042400000) (- 360) ''09:00-17:00'' ''1-5''"
proof -
  have g: "getPartsForDateInTimezone 1736042400000 (- 360) = (6, 1200)"
    by (simp add: getPartsForDateInTimezone_def time_defs cal_eval)
  show ?thesis by (simp add: isWithinBusinessHoursAt_def days_1_5 g)
qed

lemma plain_numerals_eval:
  "plain_numerals ''09:00-17:00''" "plain_numerals ''1-5''" "plain_numerals ''2025-01-04''"
  "plain_numerals ''20:00''" "plain_numerals ''21:00''"
  by (simp_all add: plain_numerals_def)

text \<open>
  C2, as amended. The booking endpoint hands a request to the calendar
  without looking at the business hours. For every request whose date,
  start time and end time are there and can be read, exactly one event is
  asked of the calendar; its start is the instant built from the date and
  the start time, whatever the hours and days of the business; and the
  reply is the event the calendar created, or a server error when the
  calendar client throws. Nothing in the statement depends on
  \<open>isWithinBusinessHoursAt\<close>, so it covers the starts that are outside the
  business hours like those inside.
\<close>

theorem book_appointment_unchecked:
  assumes "plain_numerals (or_default (date body) [])"
    and "plain_numerals (or_default (startTime body) [])"
    and "plain_numerals (or_default (endTime body) [])"
    and "trim (or_default (date body) []) \<noteq> []"
    and "trim (or_default (startTime body) []) \<noteq> []"
    and "trim (or_default (endTime body) []) \<noteq> []"
    and "booking_parts lx businessTz clock body = Some (tz, dParts, sParts, eParts)"
  shows "\<exists>req. snd (book_appointment lx businessTz businessName clock events_insert body) = [req] \<and>
           ev_start_dateTime req = fromObject tz dParts sParts \<and>
           fst (book_appointment lx businessTz businessName clock events_insert body) =
             (case events_insert req of
                Inr event \<Rightarrow> Ok_event event
              | Inl message \<Rightarrow> Server_error message)"
  using assms(4-7)
  by (simp add: book_appointment_def Let_def split: sum.splits)

text \<open>
  A request for Saturday 2025-01-04 from 20:00 to 21:00, with the business
  open 09:00-17:00 on days 1-5: the start is outside the business hours, one
  event with that start is asked of the calendar, and the reply is the
  event created.
\<close>

theorem book_appointment_unchecked_witness:
  "\<not> isWithinBusinessHoursAt (Some 1736042400000) (- 360) ''09:00-17:00'' ''1-5'' \<and>
   fst (book_appointment luxon_24h ''America/Chicago'' ''our office'' 1735000000000
          (\<lambda>r. Inr ''event-2'')
          \<lparr>calendarId = None, date = Some ''2025-01-04'', startTime = Some ''20:00'',
           endTime = Some ''21:00'', timezone = None, summary = None, description = None,
           attendees = None\<rparr>) = Ok_event ''event-2'' \<and>
   map ev_start_dateTime
     (snd (book_appointment luxon_24h ''America/Chicago'' ''our office'' 1735000000000
             (\<lambda>r. Inr ''event-2'')
             \<lparr>calendarId = None, date = Some ''2025-01-04'', startTime = Some ''20:00'',
              endTime = Some ''21:00'', timezone = None, summary = None, description = None,
              attendees = None\<rparr>)) = [Some 1736042400000]"
proof -
  define body where "body =
     \<lparr>calendarId = None, date = Some ''2025-01-04'', startTime = Some ''20:00'',
      endTime = Some ''21:00'', timezone = None, summary = (None :: string option),
      description = (None :: string option), attendees = (None :: string list option)\<rparr>"
  define r where "r = book_appointment luxon_24h ''America/Chicago'' ''our office'' 1735000000000
     (\<lambda>r. Inr ''event-2'' :: string + string) body"
  have p: "booking_parts luxon_24h ''America/Chicago'' 1735000000000 body
             = Some (- 360, (2025, 1, 4), (20, 0), (21, 0))"
    by (simp add: body_def body_eval)
  have "\<exists>req. snd r = [req] \<and> ev_start_dateTime req = fromObject (- 360) (2025, 1, 4) (20, 0) \<and>
          fst r = (case (Inr ''event-2'' :: string + string) of
                     Inr event \<Rightarrow> Ok_event event | Inl message \<Rightarrow> Server_error message)"
    unfolding r_def
    by (rule book_appointment_unchecked[OF _ _ _ _ _ _ p])
       (simp_all add: body_def or_default_def plain_numerals_eval trim_def is_space_def)
  then have "fst r = Ok_event ''event-2'' \<and> map ev_start_dateTime (snd r) = [Some 1736042400000]"
    by (auto simp: fromObject_saturday)
  then show ?thesis using saturday_2000_closed by (simp add: r_def body_def)
qed

text \<open>
  C8, as stated, fails when the end time equals the start time: the end
  built from the date and the end time does not precede the start, and the
  request sent to the calendar ends one day later.
\<close>

theorem book_appointment_equal_times_counterexample:
  "fromObject 0 (2025, 1, 6) (9, 0) = Some 1736154000000 \<and>
   \<not> (1736154000000 :: int) < 1736154000000 \<and>
   map ev_end_dateTime
     (snd (book_appointment luxon_24h ''America/Chicago'' ''our office'' 1735000000000
        (\<lambda>r. Inr ''event-1'')
        \<lparr>calendarId = None, date = Some ''2025-01-06'', startTime = Some ''09:00'',
         endTime = Some ''09:00'', timezone = Some ''UTC'', summary = None, description = None,
         attendees = None\<rparr>))
   = [Some (1736154000000 + msPerDay)]"
  by (simp add: book_appointment_def body_eval fromObject_eval roll_end_spec)

text \<open>
  C8, as amended. For every request the endpoint sends to the calendar,
  with a start and an end that luxon builds validly from the date and the
  two times: the start is sent as built; the end is sent one day later when
  it is at or before the start (\<open>endDt <= startDt\<close>), and as built otherwise.
\<close>

theorem book_appointment_end_roll:
  assumes "req \<in> set (snd (book_appointment lx businessTz businessName clock events_insert body))"
    and "booking_parts lx businessTz clock body = Some (tz, dParts, sParts, eParts)"
    and "fromObject tz dParts sParts = Some s"
    and "fromObject tz dParts eParts = Some e"
  shows "ev_start_dateTime req = Some s \<and>
         ev_end_dateTime req = Some (if e \<le> s then e + msPerDay else e)"
  using assms
  by (auto simp: book_appointment_def Let_def roll_end_spec split: if_splits sum.splits)

theorem book_appointment_end_roll_witness:
  "map (\<lambda>req. (ev_start_dateTime req, ev_end_dateTime req))
     (snd (book_appointment luxon_24h ''UTC'' ''our office'' 1735000000000
        (\<lambda>r. Inr ''event-1'')
        \<lparr>calendarId = None, date = Some ''2020-01-06'', startTime = Some ''09:30'',
         endTime = Some ''09:00'', timezone = None, summary = None, description = None,
         attendees = None\<rparr>))
   = [(Some 1578303000000, Some (1578301200000 + msPerDay))]"
proof -
  define body where "body =
        \<lparr>calendarId = None, date = Some ''2020-01-06'', startTime = Some ''09:30'',
         endTime = Some ''09:00'', timezone = None, summary = (None :: string option),
         description = (None :: string option), attendees = (None :: string list option)\<rparr>"
  define reqs where "reqs = snd (book_appointment luxon_24h ''UTC'' ''our office'' 1735000000000
        (\<lambda>r. Inr ''event-1'') body)"
  have p: "booking_parts luxon_24h ''UTC'' 1735000000000 body
             = Some (0, (2020, 1, 6), (9, 30), (9, 0))"
    by (simp add: body_def body_eval)
  have "\<exists>req. reqs = [req]"
    by (simp add: reqs_def body_def book_appointment_def body_eval fromObject_eval roll_end_spec)
  then obtain req where l: "reqs = [req]" by blast
  then have "req \<in> set (snd (book_appointment luxon_24h ''UTC'' ''our office'' 1735000000000
        (\<lambda>r. Inr ''event-1'') body))"
    by (simp add: reqs_def)
  from book_appointment_end_roll[OF this p fromObject_eval(5) fromObject_eval(4)]
  have "ev_start_dateTime req = Some 1578303000000 \<and>
        ev_end_dateTime req = Some (1578301200000 + msPerDay)" by simp
  then show ?thesis using l by (simp add: reqs_def body_def)
qed

section \<open>Properties of the business hours\<close>

text \<open>
  The weekday and the minute of the day that the check reads for an
  instant, told from its wall-clock time in the business zone: on local day
  number \<open>day\<close> (counted from 1970-01-01, a Thursday) at \<open>hour:minute\<close> and
  \<open>ms\<close> milliseconds into the minute, the weekday is \<open>(day + 4) mod 7\<close> and
  the minute of the day is \<open>hour * 60 + minute\<close>, in every zone.
\<close>

lemma getPartsForDateInTimezone_local:
  assumes "0 \<le> hour" "hour \<le> 23" "0 \<le> minute" "minute \<le> 59" "0 \<le> ms" "ms < msPerMinute"
  shows "getPartsForDateInTimezone (UTC tz (MakeDate day (MakeTime hour minute 0 ms))) tz
           = ((day + 4) mod 7, hour * 60 + minute)"
proof -
  define l where "l = MakeDate day (MakeTime hour minute 0 ms)"
  have ms: "ms < 60000" using assms(6) by (simp add: msPerMinute_def)
  have d: "l = day * 86400000 + (hour * 3600000 + minute * 60000 + ms)"
    by (simp add: l_def MakeDate_def MakeTime_def msPerDay_def msPerHour_def msPerMinute_def)
  have b: "0 \<le> hour * 3600000 + minute * 60000 + ms"
    "hour * 3600000 + minute * 60000 + ms < 86400000"
    using assms(1-5) ms by simp_all
  have day: "l div 86400000 = day"
    unfolding d by (rule div_mod_decomp(1)[OF b])
  have h: "l = (day * 24 + hour) * 3600000 + (minute * 60000 + ms)"
    unfolding d by (simp add: algebra_simps)
  have hb: "0 \<le> minute * 60000 + ms" "minute * 60000 + ms < 3600000"
    using assms(3-5) ms by simp_all
  have hd: "l div 3600000 = day * 24 + hour"
    unfolding h by (rule div_mod_decomp(1)[OF hb])
  have hm: "(day * 24 + hour) mod 24 = hour"
    by (rule div_mod_decomp(2)) (use assms(1,2) in simp_all)
  have m: "l = ((day * 24 + hour) * 60 + minute) * 60000 + ms"
    unfolding d by (simp add: algebra_simps)
  have md: "l div 60000 = (day * 24 + hour) * 60 + minute"
    unfolding m by (rule div_mod_decomp(1)) (use assms(5) ms in simp_all)
  have mm: "((day * 24 + hour) * 60 + minute) mod 60 = minute"
    by (rule div_mod_decomp(2)) (use assms(3,4) in simp_all)
  have wd: "WeekDay l = (day + 4) mod 7"
    unfolding WeekDay_def Day_def msPerDay_def day by (rule refl)
  have hh: "HourFromTime l = hour"
    unfolding HourFromTime_def msPerHour_def hd hm by (rule refl)
  have mi: "MinFromTime l = minute"
    unfolding MinFromTime_def msPerMinute_def md mm by (rule refl)
  show ?thesis
    unfolding getPartsForDateInTimezone_def LocalTime_UTC l_def[symmetric] Let_def wd hh mi
    by (rule refl)
qed

text \<open>
  So the check is: the weekday of the business zone is an open day, and the
  minute of the day of the business zone is neither before the open minute
  nor after the close minute.
\<close>

lemma isWithinBusinessHoursAt_local:
  assumes "0 \<le> hour" "hour \<le> 23" "0 \<le> minute" "minute \<le> 59" "0 \<le> ms" "ms < msPerMinute"
  shows "isWithinBusinessHoursAt (Some (UTC tz (MakeDate day (MakeTime hour minute 0 ms)))) tz
           hoursRange daysSpec \<longleftrightarrow>
         (day + 4) mod 7 \<in> set (parseBusinessDays daysSpec) \<and>
         openMin hoursRange \<le> hour * 60 + minute \<and> hour * 60 + minute \<le> closeMin hoursRange"
  by (simp add: isWithinBusinessHoursAt_def getPartsForDateInTimezone_local[OF assms])

text \<open>
  C6. Take the instant \<open>d\<close> at which the clocks of the business zone \<open>tz\<close>
  show \<open>hour:minute\<close> on local day \<open>day\<close>, a day whose weekday is an open
  day of the policy, and a window whose open minute is not after its close
  minute. Then \<open>d\<close> is judged open exactly when its minute of the day lies
  between the open and the close minute, both included: it is open at the
  open minute, closed one minute before it, open at the close minute and
  closed one minute after it. The hours and the days are written with
  plain numerals.
\<close>

theorem isWithinBusinessHoursAt_boundary:
  assumes "plain_numerals hoursRange" and "plain_numerals daysSpec"
    and "0 \<le> hour" "hour \<le> 23" "0 \<le> minute" "minute \<le> 59" "0 \<le> ms" "ms < msPerMinute"
    and "d = UTC tz (MakeDate day (MakeTime hour minute 0 ms))"
    and "(day + 4) mod 7 \<in> set (parseBusinessDays daysSpec)"
    and "openMin hoursRange \<le> closeMin hoursRange"
  shows "(isWithinBusinessHoursAt (Some d) tz hoursRange daysSpec \<longleftrightarrow>
            openMin hoursRange \<le> hour * 60 + minute \<and>
            hour * 60 + minute \<le> closeMin hoursRange) \<and>
         (hour * 60 + minute = openMin hoursRange \<longrightarrow>
            isWithinBusinessHoursAt (Some d) tz hoursRange daysSpec) \<and>
         (hour * 60 + minute = openMin hoursRange - 1 \<longrightarrow>
            \<not> isWithinBusinessHoursAt (Some d) tz hoursRange daysSpec) \<and>
         (hour * 60 + minute = closeMin hoursRange \<longrightarrow>
            isWithinBusinessHoursAt (Some d) tz hoursRange daysSpec) \<and>
         (hour * 60 + minute = closeMin hoursRange + 1 \<longrightarrow>
            \<not> isWithinBusinessHoursAt (Some d) tz hoursRange daysSpec)"
proof -
  have e: "isWithinBusinessHoursAt (Some d) tz hoursRange daysSpec \<longleftrightarrow>
             openMin hoursRange \<le> hour * 60 + minute \<and>
             hour * 60 + minute \<le> closeMin hoursRange"
    unfolding assms(9) using assms(10)
    by (simp add: isWithinBusinessHoursAt_local[OF assms(3-8)])
  show ?thesis unfolding e using assms(11) by simp
qed

text \<open>
  On a day that is not an open day of the policy the instant is closed at
  every minute.
\<close>

lemma isWithinBusinessHoursAt_closed_day:
  assumes "0 \<le> hour" "hour \<le> 23" "0 \<le> minute" "minute \<le> 59" "0 \<le> ms" "ms < msPerMinute"
    and "(day + 4) mod 7 \<notin> set (parseBusinessDays daysSpec)"
  shows "\<not> isWithinBusinessHoursAt (Some (UTC tz (MakeDate day (MakeTime hour minute 0 ms)))) tz
             hoursRange daysSpec"
  using assms(7) by (simp add: isWithinBusinessHoursAt_local[OF assms(1-6)])

text \<open>
  What the open and the close minute are for a window written
  \<open>HH:MM-HH:MM\<close>: the hour times 60 plus the minute, on each side.
\<close>

lemma is_digit_not_sep:
  assumes "is_digit c"
  shows "c \<noteq> CHR ''-''" and "c \<noteq> CHR '':''" and "c \<noteq> CHR ''+''" and "\<not> is_space c"
  using assms by (auto simp: is_digit_def is_space_def Let_def)

lemma Number_two_digits:
  assumes "is_digit a" and "is_digit b"
  shows "Number [a, b] = Some (10 * digit_val a + digit_val b)"
  using assms is_digit_not_sep[OF assms(1)] is_digit_not_sep[OF assms(2)]
  by (simp add: Number_def trim_def decimal_def)

lemma hour_minute_hhmm:
  assumes "is_digit a" and "is_digit b" and "is_digit c" and "is_digit d"
  shows "hour_minute (Some [a, b, CHR '':'', c, d]) dflt dh dm =
           (10 * digit_val a + digit_val b) * 60 + (10 * digit_val c + digit_val d)"
  using is_digit_not_sep(2)[OF assms(1)] is_digit_not_sep(2)[OF assms(2)]
    is_digit_not_sep(2)[OF assms(3)] is_digit_not_sep(2)[OF assms(4)]
  by (simp add: hour_minute_def Number_two_digits[OF assms(1,2)] Number_two_digits[OF assms(3,4)])

lemma split_hours:
  assumes "is_digit a1" "is_digit a2" "is_digit a3" "is_digit a4"
    "is_digit b1" "is_digit b2" "is_digit b3" "is_digit b4"
  shows "split_on (CHR ''-'')
           [a1, a2, CHR '':'', a3, a4, CHR ''-'', b1, b2, CHR '':'', b3, b4] =
         [[a1, a2, CHR '':'', a3, a4], [b1, b2, CHR '':'', b3, b4]]"
  using assms[THEN is_digit_not_sep(1)] by simp

lemma openMin_closeMin_hhmm:
  assumes "is_digit a1" "is_digit a2" "is_digit a3" "is_digit a4"
    "is_digit b1" "is_digit b2" "is_digit b3" "is_digit b4"
  shows "openMin [a1, a2, CHR '':'', a3, a4, CHR ''-'', b1, b2, CHR '':'', b3, b4] =
           (10 * digit_val a1 + digit_val a2) * 60 + (10 * digit_val a3 + digit_val a4)"
    and "closeMin [a1, a2, CHR '':'', a3, a4, CHR ''-'', b1, b2, CHR '':'', b3, b4] =
           (10 * digit_val b1 + digit_val b2) * 60 + (10 * digit_val b3 + digit_val b4)"
  unfolding openMin_def closeMin_def split_hours[OF assms]
  using assms by (simp_all add: hour_minute_hhmm)

lemma monday_2025: "MakeDay 2025 0 6 = 20094" "MakeDay 2025 0 5 = 20093"
  "(20094 + 4) mod 7 = (1 :: int)"
  by (simp_all add: cal_eval)

lemma open_close_all_day: "openMin ''00:00-23:59'' = 0" "closeMin ''00:00-23:59'' = 1439"
  by (simp_all add: openMin_def closeMin_def hour_minute_def str_eval)

text \<open>
  Monday 2025-01-06 in a zone ten hours ahead of UTC, against the hours
  09:00-17:00 on days 1-5: the instant at which the clocks of the zone show
  09:00 is open, 08:59 is closed, 17:00 is open and 17:01 is closed. On
  UTC the first two of these instants are Sunday 2025-01-05 at 23:00 and at
  22:59, and the last two are Monday at 07:00 and at 07:01.
\<close>

theorem isWithinBusinessHoursAt_boundary_witness:
  "isWithinBusinessHoursAt (Some (MakeDate (MakeDay 2025 0 5) (MakeTime 23 0 0 0))) 600
     ''09:00-17:00'' ''1-5'' \<and>
   \<not> isWithinBusinessHoursAt (Some (MakeDate (MakeDay 2025 0 5) (MakeTime 22 59 0 0))) 600
     ''09:00-17:00'' ''1-5'' \<and>
   isWithinBusinessHoursAt (Some (MakeDate (MakeDay 2025 0 6) (MakeTime 7 0 0 0))) 600
     ''09:00-17:00'' ''1-5'' \<and>
   \<not> isWithinBusinessHoursAt (Some (MakeDate (MakeDay 2025 0 6) (MakeTime 7 1 0 0))) 600
     ''09:00-17:00'' ''1-5''"
proof -
  have i: "MakeDate (MakeDay 2025 0 5) (MakeTime 23 0 0 0)
             = UTC 600 (MakeDate 20094 (MakeTime 9 0 0 0))"
    "MakeDate (MakeDay 2025 0 5) (MakeTime 22 59 0 0)
             = UTC 600 (MakeDate 20094 (MakeTime 8 59 0 0))"
    "MakeDate (MakeDay 2025 0 6) (MakeTime 7 0 0 0)
             = UTC 600 (MakeDate 20094 (MakeTime 17 0 0 0))"
    "MakeDate (MakeDay 2025 0 6) (MakeTime 7 1 0 0)
             = UTC 600 (MakeDate 20094 (MakeTime 17 1 0 0))"
    unfolding monday_2025(1,2) by (simp_all add: time_defs)
  have open_day: "(20094 + 4) mod 7 \<in> set (parseBusinessDays ''1-5'')"
    unfolding monday_2025(3) by (simp add: days_1_5)
  have w: "openMin ''09:00-17:00'' \<le> closeMin ''09:00-17:00''"
    by (simp add: open_close_9_17)
  have ms: "(0 :: int) < msPerMinute" by (simp add: msPerMinute_def)
  show ?thesis
    using
      isWithinBusinessHoursAt_boundary[OF plain_numerals_eval(1,2) _ _ _ _ _ ms i(1) open_day w]
      isWithinBusinessHoursAt_boundary[OF plain_numerals_eval(1,2) _ _ _ _ _ ms i(2) open_day w]
      isWithinBusinessHoursAt_boundary[OF plain_numerals_eval(1,2) _ _ _ _ _ ms i(3) open_day w]
      isWithinBusinessHoursAt_boundary[OF plain_numerals_eval(1,2) _ _ _ _ _ ms i(4) open_day w]
    by (simp add: open_close_9_17)
qed

text \<open>
  The weekday is that of the business zone, not that of UTC. With the
  business open all day (00:00-23:59) on days 1-5, in a zone six hours
  behind UTC, the instant at which the clocks of the zone show Friday
  2025-01-10 23:59 is open, although on UTC it is Saturday 05:59; and the
  instant at which they show Sunday 2025-01-12 23:59 is closed, although on
  UTC it is Monday 05:59.
\<close>

lemma isWithinBusinessHoursAt_zone_weekday:
  "isWithinBusinessHoursAt (Some (MakeDate (MakeDay 2025 0 11) (MakeTime 5 59 0 0))) (- 360)
     ''00:00-23:59'' ''1-5'' \<and>
   \<not> isWithinBusinessHoursAt (Some (MakeDate (MakeDay 2025 0 13) (MakeTime 5 59 0 0))) (- 360)
     ''00:00-23:59'' ''1-5''"
proof -
  have d: "MakeDay 2025 0 11 = 20099" "MakeDay 2025 0 13 = 20101"
    by (simp_all add: cal_eval)
  have i: "MakeDate (MakeDay 2025 0 11) (MakeTime 5 59 0 0)
             = UTC (- 360) (MakeDate 20098 (MakeTime 23 59 0 0))"
    "MakeDate (MakeDay 2025 0 13) (MakeTime 5 59 0 0)
             = UTC (- 360) (MakeDate 20100 (MakeTime 23 59 0 0))"
    unfolding d by (simp_all add: time_defs)
  have ms: "(0 :: int) < msPerMinute" by (simp add: msPerMinute_def)
  have wd: "(20098 + 4) mod 7 = (5 :: int)" "(20100 + 4) mod 7 = (0 :: int)"
    by simp_all
  show ?thesis
    unfolding i
    by (simp add: isWithinBusinessHoursAt_local[OF _ _ _ _ _ ms] wd days_1_5 open_close_all_day)
qed

section \<open>Properties of the legacy webhook\<close>

text \<open>
  With the scope of the server file the handler never gets as far as the
  business hours or the calendar: for a call that is awaiting a date and
  time the first name it evaluates inside the \<open>try\<close> block of line 232 is
  not bound, and every other call is sent back to \<open>/voice/answer\<close>.
\<close>

lemma schedule_time_server_scope:
  "schedule_time server_scope env state speech =
     (if state = Some ''awaiting_datetime'' then Gather ''Sorry, what date and time?''
      else Redirect_answer, [])"
  by (simp add: schedule_time_def infer_intent_def server_scope_def)

text \<open>
  In the text of the handler the check of the business hours stands before
  the call of \<open>createEvent\<close>: whatever the scope binds, a start handed to
  \<open>createEvent\<close> has passed \<open>isWithinBusinessHoursAt\<close>.
\<close>

lemma schedule_time_checks_first:
  assumes "start \<in> set (snd (schedule_time sc env state speech))"
  shows "isWithinBusinessHoursAt (date_of (new_Date env) start) (env_businessTz env)
           (env_businessHoursRange env) (env_businessDaysSpec env)"
  using assms
  by (auto simp: schedule_time_def schedule_booking_def Let_def
           split: option.splits if_splits sum.splits)

lemma Date_parse_iso_eval:
  "Date_parse_iso ''2025-01-05T13:30:00.000Z'' = Some 1736083800000"
  "Date_parse_iso ''2024-06-10T10:00:00.000Z'' = Some 1718013600000"
  by code_simp+

lemma getFullYear_eval:
  "getFullYear 0 1736083800000 = 2025"
  "getFullYear 0 1735900000000 = 2025"
  "getFullYear 0 1718013600000 = 2024"
  "getFullYear 0 1749549600000 = 2025"
  by (simp_all add: time_defs cal_eval)

lemma ensureFutureIso_sunday:
  "ensureFutureIso Date_parse_iso 0 1735900000000 ''2025-01-05T13:30:00.000Z''
     = Iso 1736083800000"
  by (simp add: ensureFutureIso_def now_of_clock_def Date_parse_iso_eval getFullYear_eval Let_def)

text \<open>
  Under a scope that binds every name, a call that is awaiting a date and
  time and asks for Sunday 2025-01-05 13:30 UTC, which is 07:30 in the
  business zone, is answered with the sentence about the business hours,
  and nothing is booked.
\<close>

lemma schedule_time_bound_scope:
  "schedule_time
     \<lparr>getRelevantContext = Some (\<lambda>speech. Some []),
      inferIntentFromText = Some (\<lambda>speech context.
        Some \<lparr>intent_reply = ''Sure.'', datetimeISO = Some ''2025-01-05T13:30:00.000Z''\<rparr>),
      binds_parseRelativeDateToISO = True, binds_ensureFutureIso = True,
      binds_getCurrentDateTimeISO = True\<rparr>
     \<lparr>chrono_parse = (\<lambda>text ref. []),
      toISO = (\<lambda>t. []),
      new_Date = Date_parse_iso,
      createEvent = (\<lambda>start. Some ''event-1''),
      env_clock = 1735900000000,
      env_localZone = 0,
      env_businessTz = - 360,
      env_businessHoursRange = ''09:00-17:00'',
      env_businessDaysSpec = ''1-5''\<rparr>
     (Some ''awaiting_datetime'') ''sunday at half past seven'' =
   (Gather (outside_hours_message ''1-5'' ''09:00-17:00''), [])"
  by (simp add: schedule_time_def infer_intent_def schedule_datetime_def schedule_booking_def
      ensureFutureIso_sunday sunday_0730_closed date_of_def)

section \<open>Properties of the year-safety pass\<close>

lemma setFullYear_eval: "setFullYear 0 1718013600000 2025 = 1749549600000"
  by (simp add: setFullYear_unfold time_defs cal_eval)

text \<open>
  C4, at the input where the code and the claim part. The clock stands at
  2025-06-10 10:00:00.250 UTC, so \<open>now\<close> is 10:00:00.000 of that day; the
  input is the same day and time of the year 2024. Its year is earlier
  than the reference year and is replaced; the candidate is then equal to
  \<open>now\<close>, the test \<open>candidate < now\<close> is false, and the result is \<open>now\<close>
  itself, which is not after the reference instant.
\<close>

theorem ensureFutureIso_not_after_now:
  "now_of_clock 1749549600250 = 1749549600000 \<and>
   Date_parse_iso ''2024-06-10T10:00:00.000Z'' = Some 1718013600000 \<and>
   getFullYear 0 1718013600000 = 2024 \<and>
   getFullYear 0 (now_of_clock 1749549600250) = 2025 \<and>
   ensureFutureIso Date_parse_iso 0 1749549600250 ''2024-06-10T10:00:00.000Z''
     = Iso (now_of_clock 1749549600250)"
  using getFullYear_eval
  by (simp add: ensureFutureIso_def now_of_clock_def Date_parse_iso_eval setFullYear_eval Let_def)

section \<open>Properties of the tool-call handler\<close>

lemma json_eval:
  "JSON_parse_text '''' = None"
  "JSON_parse_text ''{}'' = Some ''{}''"
  "JSON_parse_text ''{date}'' = None"
  by code_simp+

text \<open>
  C3. On a socket that has both send methods, as the wrapper of the bridge
  has, every tool-call message gets exactly one reply, whatever the
  message, the reading of its parameters and the outcome of the request to
  the booking endpoint. The reply carries the call's identifier, and it is
  a \<open>tool_response\<close> exactly when the tool is \<open>book_appointment\<close>, the
  parameters parse, and the endpoint answers with a status from 200 to 299
  and a body that reads as JSON; in every other case it is a \<open>tool_error\<close>.
\<close>

theorem handleToolCallMessage_one_reply:
  assumes "sendToolResponseMessage sock" and "sendToolErrorMessage sock"
  shows "\<exists>r. fst (handleToolCallMessage P F sock m) = [r] \<and>
             reply_id r = or_js (toolCallId m) (tool_call_id m) \<and>
             (is_tool_response r \<longleftrightarrow>
                (\<exists>params status text content.
                   or_default (or_js (name m) (tool_name m)) [] = ''book_appointment'' \<and>
                   P (or_default (or_js (parameters m) (args m)) ''{}'') = Some params \<and>
                   F params = Responded status text (Inr content) \<and>
                   200 \<le> status \<and> status \<le> 299))"
  using assms
  by (auto simp: handleToolCallMessage_def Let_def send_error_def send_response_def unhandled_def
      split: option.splits fetched.splits sum.splits)

theorem handleToolCallMessage_one_reply_witness:
  "\<exists>r. fst (handleToolCallMessage JSON_parse_text (\<lambda>b. Responded 200 (Inr ''ok'') (Inr ''{}''))
            socketWrapper
            \<lparr>name = Some ''book_appointment'', tool_name = None, toolCallId = Some ''call-1'',
             tool_call_id = None, parameters = Some ''{}'', args = None\<rparr>) = [r] \<and>
       reply_id r = Some ''call-1''"
  using handleToolCallMessage_one_reply[of socketWrapper JSON_parse_text
      "\<lambda>b. Responded 200 (Inr ''ok'') (Inr ''{}'')"
      "\<lparr>name = Some ''book_appointment'', tool_name = None, toolCallId = Some ''call-1'',
             tool_call_id = None, parameters = Some ''{}'', args = None\<rparr>"]
  by (auto simp: socketWrapper_def or_js_def)

text \<open>The replies by case.\<close>

lemma handleToolCallMessage_unsupported:
  assumes "or_default (or_js (name m) (tool_name m)) [] \<noteq> ''book_appointment''"
  shows "handleToolCallMessage P F sock m =
    (send_error sock (Tool_error (or_js (toolCallId m) (tool_call_id m)) Tool_not_found
       ''The requested tool is not supported by this server'' None), [])"
  using assms by (simp add: handleToolCallMessage_def)

lemma handleToolCallMessage_rejected:
  assumes "or_default (or_js (name m) (tool_name m)) [] = ''book_appointment''"
    and "P (or_default (or_js (parameters m) (args m)) ''{}'') = Some params"
    and "F params = Rejected message"
  shows "handleToolCallMessage P F sock m = (send_error sock (unhandled m message), [params])"
  using assms by (simp add: handleToolCallMessage_def)

lemma handleToolCallMessage_bridge_error:
  assumes "or_default (or_js (name m) (tool_name m)) [] = ''book_appointment''"
    and "P (or_default (or_js (parameters m) (args m)) ''{}'') = Some params"
    and "F params = Responded status (Inr t) json"
    and "\<not> (200 \<le> status \<and> status \<le> 299)"
  shows "handleToolCallMessage P F sock m =
    (send_error sock
       (Tool_error (or_js (toolCallId m) (tool_call_id m)) (Bridge_error status)
          (if take 500 t = [] then ''Error creating event'' else take 500 t)
          (Some ''I could not book that time. Would you like to try another time?'')),
     [params])"
  using assms by (simp add: handleToolCallMessage_def)

lemma handleToolCallMessage_success:
  assumes "or_default (or_js (name m) (tool_name m)) [] = ''book_appointment''"
    and "P (or_default (or_js (parameters m) (args m)) ''{}'') = Some params"
    and "F params = Responded status text (Inr content)"
    and "200 \<le> status" and "status \<le> 299"
  shows "handleToolCallMessage P F sock m =
    (send_response sock (Tool_response (or_js (toolCallId m) (tool_call_id m)) content),
     [params])"
  using assms by (simp add: handleToolCallMessage_def)

text \<open>
  C7, as stated, fails on a message whose \<open>parameters\<close> string is empty. The
  empty string is not a JSON text, but it is falsy, so the handler reads
  \<open>args\<close> or the default \<open>{}\<close> in its place and posts that to the booking
  endpoint. The endpoint answers an empty body with status 400, and the
  reply is the tool error "Bridge error 400", not "Malformed parameters".
\<close>

theorem handleToolCallMessage_empty_parameters_counterexample:
  "JSON_parse_text '''' = None \<and>
   fst (book_appointment luxon_24h ''America/Chicago'' ''our office'' 0 (\<lambda>r. Inr ''event-1'')
     \<lparr>calendarId = None, date = None, startTime = None, endTime = None, timezone = None,
      summary = None, description = None, attendees = None\<rparr>)
   = Bad_request ''date, startTime, endTime required'' \<and>
   handleToolCallMessage JSON_parse_text
     (\<lambda>b. Responded 400 (Inr ''date, startTime, endTime required'') (Inl ''not read''))
     socketWrapper
     \<lparr>name = Some ''book_appointment'', tool_name = None, toolCallId = Some ''call-1'',
      tool_call_id = None, parameters = Some '''', args = None\<rparr>
   = ([Tool_error (Some ''call-1'') (Bridge_error 400) ''date, startTime, endTime required''
         (Some ''I could not book that time. Would you like to try another time?'')],
      [''{}''])"
  by (simp add: handleToolCallMessage_def or_js_def or_default_def json_eval socketWrapper_def
      send_error_def book_appointment_def trim_def)

text \<open>
  C7, as amended. For every tool-call message that names the tool
  \<open>book_appointment\<close> (in \<open>name\<close>, or in \<open>tool_name\<close> when \<open>name\<close> is missing or
  empty), when the parameter string the handler reads (\<open>parameters\<close>, or
  \<open>args\<close> when that is missing or empty, or \<open>{}\<close> when both are) is not
  valid JSON, the one send the handler makes is the \<open>tool_error\<close> "Malformed
  parameters" with the call's identifier, and nothing is posted to the
  booking endpoint.
\<close>

theorem handleToolCallMessage_malformed:
  assumes "or_default (or_js (name m) (tool_name m)) [] = ''book_appointment''"
    and "P (or_default (or_js (parameters m) (args m)) ''{}'') = None"
  shows "handleToolCallMessage P F sock m =
    (send_error sock (Tool_error (or_js (toolCallId m) (tool_call_id m)) Malformed_parameters
       ''Parameters were not valid JSON'' None), [])"
  using assms by (simp add: handleToolCallMessage_def)

theorem handleToolCallMessage_malformed_witness:
  "handleToolCallMessage JSON_parse_text (\<lambda>b. Responded 200 (Inr ''ok'') (Inr ''{}''))
     socketWrapper
     \<lparr>name = Some ''book_appointment'', tool_name = None, toolCallId = Some ''call-1'',
      tool_call_id = None, parameters = Some ''{date}'', args = None\<rparr>
   = ([Tool_error (Some ''call-1'') Malformed_parameters ''Parameters were not valid JSON'' None],
      [])"
  using handleToolCallMessage_malformed[of
      "\<lparr>name = Some ''book_appointment'', tool_name = None, toolCallId = Some ''call-1'',
      tool_call_id = None, parameters = Some ''{date}'', args = None\<rparr>" JSON_parse_text
      "\<lambda>b. Responded 200 (Inr ''ok'') (Inr ''{}'')" socketWrapper]
  by (simp add: or_js_def or_default_def json_eval socketWrapper_def send_error_def)

section \<open>Properties of the bridge\<close>

lemma audio_inputs_append: "audio_inputs (xs @ ys) = audio_inputs xs @ audio_inputs ys"
  by (induction xs rule: audio_inputs.induct) simp_all

lemma audio_inputs_replies: "audio_inputs (map Tool_reply rs) = []"
  by (induction rs) simp_all

lemma bridge_step_audio:
  "audio_inputs (sent_to_hume (bridge_step P F s e)) =
     audio_inputs (sent_to_hume s) @ (if humeReady s then media_payloads [e] else [])"
  by (cases "(P, F, s, e)" rule: bridge_step.cases)
     (auto simp: audio_inputs_append audio_inputs_replies split: option.splits)

lemma bridge_step_ready:
  "humeReady (bridge_step P F s e) = (humeReady s \<or> e = Hume_open)"
  by (cases "(P, F, s, e)" rule: bridge_step.cases) (auto split: option.splits)

lemma media_payloads_Cons: "media_payloads (e # evs) = media_payloads [e] @ media_payloads evs"
  by (cases "(e # evs)" rule: media_payloads.cases) auto

lemma bridge_run_audio:
  "audio_inputs (sent_to_hume (bridge_run P F s evs)) =
     audio_inputs (sent_to_hume s) @
     (if humeReady s then media_payloads evs
      else media_payloads (dropWhile (\<lambda>e. e \<noteq> Hume_open) evs))"
proof (induction evs arbitrary: s)
  case Nil
  show ?case by (simp add: bridge_run_def)
next
  case (Cons e evs)
  have r: "bridge_run P F s (e # evs) = bridge_run P F (bridge_step P F s e) evs"
    by (simp add: bridge_run_def)
  show ?case
    unfolding r Cons.IH bridge_step_audio bridge_step_ready
    using media_payloads_Cons[of e evs] by auto
qed

text \<open>
  C10. Over every sequence of events of one bridge, the audio handed to the
  Hume socket is, in order, the payloads of the media frames that arrive
  after the first \<open>open\<close> of that socket. The frames before it leave no
  trace: they are not sent then and not sent later.
\<close>

theorem bridge_forwards_media_after_open:
  "audio_inputs (sent_to_hume (bridge_run P F startTwilioHumeBridge evs)) =
     media_payloads (dropWhile (\<lambda>e. e \<noteq> Hume_open) evs)"
  by (simp add: bridge_run_audio startTwilioHumeBridge_def)

theorem bridge_forwards_media_after_open_witness:
  "audio_inputs (sent_to_hume (bridge_run JSON_parse_text (\<lambda>b. Rejected ''down'')
     startTwilioHumeBridge
     [Twilio_message Twilio_start, Twilio_message (Twilio_media (Some ''early'')), Hume_open,
      Twilio_message (Twilio_media (Some ''late''))])) = [Some ''late'']"
  using bridge_forwards_media_after_open[of JSON_parse_text "\<lambda>b. Rejected ''down''"
      "[Twilio_message Twilio_start, Twilio_message (Twilio_media (Some ''early'')), Hume_open,
        Twilio_message (Twilio_media (Some ''late''))]"]
  by simp

end
